theory Spec2Isabelle
  imports Complex_Main
begin

section \<open>JavaScript values\<close>

text \<open>
  The repository holds three copies of the form script: \<^verbatim>\<open>src/frontend/script.js\<close>,
  \<^verbatim>\<open>src/unnamed/part_000\<close> and \<^verbatim>\<open>src/unnamed/part_001\<close>. Definitions that
  differ between the copies carry the suffix \<open>_frontend\<close>, \<open>_part000\<close> or
  \<open>_part001\<close>; a definition without suffix is the same text in every copy that has it.

  A JavaScript number is a finite value, NaN or an infinity. Finite doubles are modelled
  by the rationals they denote: rounding, overflow and the sign of zero are not modelled.
\<close>

datatype jsnum = Fin rat | NaN | PosInf | NegInf

text \<open>
  \<open>JObj\<close> is a plain object given by the list of its own properties (each key once), as an
  object literal or \<^verbatim>\<open>JSON.parse\<close> builds it. \<open>JBuiltin\<close> is a function or object of
  the engine that a plain object inherits from \<^verbatim>\<open>Object.prototype\<close>. Arrays are not
  modelled: the script builds none and reads none.
\<close>

datatype jsval = JUndefined | JNull | JBool bool | JNum jsnum | JStr string
  | JObj "(string \<times> jsval) list" | JBuiltin string

datatype jserror = TypeError | SyntaxError | FetchFailed string | Error string

text \<open>
  What the script takes from the browser and the engine rather than defining itself:
  \<^verbatim>\<open>window.ENV?.API_URL\<close>, \<^verbatim>\<open>parseFloat\<close>, the conversion of a string to a number,
  \<^verbatim>\<open>Number.prototype.toString\<close> and \<^verbatim>\<open>toFixed\<close> on finite numbers,
  \<^verbatim>\<open>new Date(v).toLocaleDateString('en-US', ...)\<close>, the text of a built-in function, and
  the message of an error the engine throws.
\<close>

record browser =
  env_api_url :: "string option"
  parseFloat :: "string \<Rightarrow> jsnum"
  stringToNumber :: "string \<Rightarrow> jsnum"
  numberToString :: "rat \<Rightarrow> string"
  numberToFixed :: "rat \<Rightarrow> nat \<Rightarrow> string"
  localeDate :: "jsval \<Rightarrow> string"
  builtinToString :: "string \<Rightarrow> string"
  engineMessage :: "jserror \<Rightarrow> string"

definition is_finite :: "jsnum \<Rightarrow> bool" where
  "is_finite n = (case n of Fin q \<Rightarrow> True | _ \<Rightarrow> False)"

fun num_sub :: "jsnum \<Rightarrow> jsnum \<Rightarrow> jsnum" where
  "num_sub (Fin a) (Fin c) = Fin (a - c)"
| "num_sub NaN y = NaN"
| "num_sub x NaN = NaN"
| "num_sub PosInf PosInf = NaN"
| "num_sub NegInf NegInf = NaN"
| "num_sub PosInf y = PosInf"
| "num_sub NegInf y = NegInf"
| "num_sub (Fin a) PosInf = NegInf"
| "num_sub (Fin a) NegInf = PosInf"

text \<open>Division never throws: a zero divisor gives NaN or an infinity.\<close>

fun num_div :: "jsnum \<Rightarrow> jsnum \<Rightarrow> jsnum" where
  "num_div (Fin a) (Fin c) =
     (if c = 0 then (if a = 0 then NaN else if 0 < a then PosInf else NegInf)
      else Fin (a / c))"
| "num_div NaN y = NaN"
| "num_div x NaN = NaN"
| "num_div (Fin a) y = Fin 0"
| "num_div PosInf (Fin c) = (if 0 \<le> c then PosInf else NegInf)"
| "num_div NegInf (Fin c) = (if 0 \<le> c then NegInf else PosInf)"
| "num_div x y = NaN"

fun num_mul :: "jsnum \<Rightarrow> jsnum \<Rightarrow> jsnum" where
  "num_mul (Fin a) (Fin c) = Fin (a * c)"
| "num_mul NaN y = NaN"
| "num_mul x NaN = NaN"
| "num_mul PosInf (Fin c) = (if c = 0 then NaN else if 0 < c then PosInf else NegInf)"
| "num_mul NegInf (Fin c) = (if c = 0 then NaN else if 0 < c then NegInf else PosInf)"
| "num_mul (Fin a) PosInf = (if a = 0 then NaN else if 0 < a then PosInf else NegInf)"
| "num_mul (Fin a) NegInf = (if a = 0 then NaN else if 0 < a then NegInf else PosInf)"
| "num_mul PosInf PosInf = PosInf"
| "num_mul NegInf NegInf = PosInf"
| "num_mul PosInf NegInf = NegInf"
| "num_mul NegInf PosInf = NegInf"

fun to_number :: "browser \<Rightarrow> jsval \<Rightarrow> jsnum" where
  "to_number b JUndefined = NaN"
| "to_number b JNull = Fin 0"
| "to_number b (JBool x) = (if x then Fin 1 else Fin 0)"
| "to_number b (JNum n) = n"
| "to_number b (JStr s) = stringToNumber b s"
| "to_number b (JObj kvs) = NaN"
| "to_number b (JBuiltin n) = NaN"

fun num_to_string :: "browser \<Rightarrow> jsnum \<Rightarrow> string" where
  "num_to_string b (Fin q) = numberToString b q"
| "num_to_string b NaN = ''NaN''"
| "num_to_string b PosInf = ''Infinity''"
| "num_to_string b NegInf = ''-Infinity''"

fun to_string :: "browser \<Rightarrow> jsval \<Rightarrow> string" where
  "to_string b JUndefined = ''undefined''"
| "to_string b JNull = ''null''"
| "to_string b (JBool x) = (if x then ''true'' else ''false'')"
| "to_string b (JNum n) = num_to_string b n"
| "to_string b (JStr s) = s"
| "to_string b (JObj kvs) = ''[object Object]''"
| "to_string b (JBuiltin n) = builtinToString b n"

fun truthy :: "jsval \<Rightarrow> bool" where
  "truthy JUndefined = False"
| "truthy JNull = False"
| "truthy (JBool x) = x"
| "truthy (JNum n) = (n \<noteq> NaN \<and> n \<noteq> Fin 0)"
| "truthy (JStr s) = (s \<noteq> [])"
| "truthy (JObj kvs) = True"
| "truthy (JBuiltin n) = True"

text \<open>\<^verbatim>\<open>x || y\<close>\<close>

definition js_or :: "jsval \<Rightarrow> jsval \<Rightarrow> jsval" where
  "js_or x y = (if truthy x then x else y)"

text \<open>The properties every plain object inherits from \<^verbatim>\<open>Object.prototype\<close>.\<close>

definition object_prototype_keys :: "string list" where
  "object_prototype_keys =
     [''constructor'', ''__proto__'', ''hasOwnProperty'', ''isPrototypeOf'',
      ''propertyIsEnumerable'', ''toLocaleString'', ''toString'', ''valueOf'',
      ''__defineGetter__'', ''__defineSetter__'', ''__lookupGetter__'',
      ''__lookupSetter__'']"

text \<open>
  \<^verbatim>\<open>v.k\<close> and \<^verbatim>\<open>v[k]\<close>: reading a property of \<^verbatim>\<open>undefined\<close> or \<^verbatim>\<open>null\<close> throws;
  a plain object answers with its own property, else with the inherited one, else with
  \<^verbatim>\<open>undefined\<close>. On a primitive or a built-in the answer \<^verbatim>\<open>undefined\<close> is exact for
  the names this script reads (none of them is a property of a number, a string, a
  boolean or a built-in function).
\<close>

fun get_prop :: "jsval \<Rightarrow> string \<Rightarrow> jserror + jsval" where
  "get_prop JUndefined k = Inl TypeError"
| "get_prop JNull k = Inl TypeError"
| "get_prop (JObj kvs) k =
     (case map_of kvs k of
        Some v \<Rightarrow> Inr v
      | None \<Rightarrow> if k \<in> set object_prototype_keys then Inr (JBuiltin k) else Inr JUndefined)"
| "get_prop v k = Inr JUndefined"

text \<open>
  \<^verbatim>\<open>v.toFixed(digits)\<close>: only a number has the method; on anything else the call throws
  a TypeError.
\<close>

fun call_toFixed :: "browser \<Rightarrow> jsval \<Rightarrow> nat \<Rightarrow> jserror + string" where
  "call_toFixed b (JNum (Fin q)) digits = Inr (numberToFixed b q digits)"
| "call_toFixed b (JNum n) digits = Inr (num_to_string b n)"
| "call_toFixed b v digits = Inl TypeError"

text \<open>
  \<^verbatim>\<open>JSON.stringify\<close>, on values: the request body is represented by the JSON value its
  text denotes. A property whose value is \<^verbatim>\<open>undefined\<close> or a function is left out, and
  a number that is not finite is written as \<^verbatim>\<open>null\<close>.
\<close>

fun JSON_stringify :: "jsval \<Rightarrow> jsval option"
  and stringify_props :: "(string \<times> jsval) list \<Rightarrow> (string \<times> jsval) list" where
  "JSON_stringify JUndefined = None"
| "JSON_stringify (JBuiltin n) = None"
| "JSON_stringify JNull = Some JNull"
| "JSON_stringify (JBool x) = Some (JBool x)"
| "JSON_stringify (JNum (Fin q)) = Some (JNum (Fin q))"
| "JSON_stringify (JNum n) = Some JNull"
| "JSON_stringify (JStr s) = Some (JStr s)"
| "JSON_stringify (JObj kvs) = Some (JObj (stringify_props kvs))"
| "stringify_props [] = []"
| "stringify_props ((k, v) # kvs) =
     (case JSON_stringify v of
        None \<Rightarrow> stringify_props kvs
      | Some w \<Rightarrow> (k, w) # stringify_props kvs)"

section \<open>The page\<close>

text \<open>
  The part of the document the script reads and writes: the value of the five inputs,
  the submit button, the result card and its texts, and the error messages shown
  (\<open>errorAlerts\<close> for the alert boxes \<^verbatim>\<open>showError\<close> inserts before the form,
  \<open>alerts\<close> for \<^verbatim>\<open>window.alert\<close>), and with them the requests the script has passed
  to \<^verbatim>\<open>fetch\<close>, oldest first. A style field holds the text the script assigned last.
  Every element the script looks up by id or selector is taken to exist.
\<close>

record http_request =
  req_url :: string
  req_method :: string
  req_content_type :: string
  req_body :: "jsval option"

record dom =
  targetDate_value :: string
  pressure_value :: string
  humidity_value :: string
  wind_value :: string
  precipitation_value :: string
  submitBtn_disabled :: bool
  btnText_display :: string
  btnLoader_display :: string
  resultCard_display :: string
  tempValue :: string
  resultDate :: string
  confidenceLow :: string
  confidenceHigh :: string
  rangeFill_width :: string
  rangeMarker_left :: string
  modelUsed :: string
  modelVersion :: string
  errorAlerts :: "string list"
  alerts :: "string list"
  fetched :: "http_request list"

text \<open>
  Assigning to \<^verbatim>\<open>textContent\<close> writes the empty text for \<^verbatim>\<open>undefined\<close> and \<^verbatim>\<open>null\<close>;
  assigning to the \<^verbatim>\<open>value\<close> of an input writes the empty text for \<^verbatim>\<open>null\<close> only.
  Both convert any other value to a string. The value sanitisation of the input's type
  (declared in the HTML, which is not part of the sources) is not modelled.
\<close>

definition text_content :: "browser \<Rightarrow> jsval \<Rightarrow> string" where
  "text_content b v = (case v of JUndefined \<Rightarrow> [] | JNull \<Rightarrow> [] | _ \<Rightarrow> to_string b v)"

definition input_value :: "browser \<Rightarrow> jsval \<Rightarrow> string" where
  "input_value b v = (case v of JNull \<Rightarrow> [] | _ \<Rightarrow> to_string b v)"

text \<open>The degree sign followed by C, and the newline of the alert text.\<close>

definition degC :: string where
  "degC = [CHR 0xB0, CHR ''C'']"

definition newline :: string where
  "newline = [CHR 0x0A]"

subsection \<open>Statements that write the page and may throw\<close>

type_synonym 'a js = "dom \<Rightarrow> (jserror + 'a) \<times> dom"

definition js_return :: "'a \<Rightarrow> 'a js" where
  "js_return x = (\<lambda>d. (Inr x, d))"

definition js_throw :: "jserror \<Rightarrow> 'a js" where
  "js_throw e = (\<lambda>d. (Inl e, d))"

definition js_lift :: "jserror + 'a \<Rightarrow> 'a js" where
  "js_lift r = (\<lambda>d. (r, d))"

definition js_update :: "(dom \<Rightarrow> dom) \<Rightarrow> unit js" where
  "js_update f = (\<lambda>d. (Inr (), f d))"

definition js_bind :: "'a js \<Rightarrow> ('a \<Rightarrow> 'c js) \<Rightarrow> 'c js" where
  "js_bind m f = (\<lambda>d. case m d of (Inl e, d') \<Rightarrow> (Inl e, d') | (Inr x, d') \<Rightarrow> f x d')"

definition js_then :: "unit js \<Rightarrow> 'c js \<Rightarrow> 'c js" where
  "js_then m k = js_bind m (\<lambda>u. k)"

section \<open>The form script\<close>

subsection \<open>Configuration and presets\<close>

text \<open>
  \<^verbatim>\<open>const API_BASE_URL = window.ENV?.API_URL || 'http://localhost:8000'\<close> in
  \<^verbatim>\<open>src/frontend/script.js\<close> and \<^verbatim>\<open>part_000\<close>; the constant alone in \<^verbatim>\<open>part_001\<close>.
\<close>

definition API_BASE_URL :: "browser \<Rightarrow> string" where
  "API_BASE_URL b =
     (case env_api_url b of
        None \<Rightarrow> ''http://localhost:8000''
      | Some u \<Rightarrow> if u = [] then ''http://localhost:8000'' else u)"

definition API_BASE_URL_part001 :: string where
  "API_BASE_URL_part001 = ''http://localhost:8000''"

definition preset_of :: "rat \<Rightarrow> rat \<Rightarrow> rat \<Rightarrow> rat \<Rightarrow> jsval" where
  "preset_of p h w r =
     JObj [(''pressure'', JNum (Fin p)), (''humidity'', JNum (Fin h)),
           (''wind'', JNum (Fin w)), (''precipitation'', JNum (Fin r))]"

text \<open>The object literal \<^verbatim>\<open>presets\<close> of \<^verbatim>\<open>src/frontend/script.js\<close> and \<^verbatim>\<open>part_000\<close>.\<close>

definition presets :: jsval where
  "presets =
     JObj [(''sunny'', preset_of 1020 45 8 0),
           (''storm'', preset_of 990 85 45 25),
           (''average'', preset_of 1013.25 60 15 2.5)]"

definition presets_part001 :: jsval where
  "presets_part001 =
     JObj [(''sunny'', preset_of 1025 45 8 0),
           (''storm'', preset_of 995 85 35 15),
           (''average'', preset_of 1013.25 60 12 2)]"

subsection \<open>loadPreset\<close>

text \<open>
  The four assignments \<^verbatim>\<open>document.getElementById('pressure').value = preset.pressure\<close>
  and so on. They are the same text in the three copies.
\<close>

definition assign_preset :: "browser \<Rightarrow> jsval \<Rightarrow> unit js" where
  "assign_preset b preset =
     js_bind (js_lift (get_prop preset ''pressure'')) (\<lambda>p.
     js_then (js_update (\<lambda>d. d\<lparr>pressure_value := input_value b p\<rparr>)) (
     js_bind (js_lift (get_prop preset ''humidity'')) (\<lambda>h.
     js_then (js_update (\<lambda>d. d\<lparr>humidity_value := input_value b h\<rparr>)) (
     js_bind (js_lift (get_prop preset ''wind'')) (\<lambda>w.
     js_then (js_update (\<lambda>d. d\<lparr>wind_value := input_value b w\<rparr>)) (
     js_bind (js_lift (get_prop preset ''precipitation'')) (\<lambda>r.
     js_update (\<lambda>d. d\<lparr>precipitation_value := input_value b r\<rparr>))))))))"

text \<open>
  \<^verbatim>\<open>const preset = presets[type]; if (preset) { ... }\<close>. The statements after the four
  assignments restyle the preset buttons and start a timer; they write no field of the
  page modelled here and are left out, and with them whether they throw (they read
  \<^verbatim>\<open>event.target\<close> in two of the copies).
\<close>

definition loadPreset_frontend :: "browser \<Rightarrow> string \<Rightarrow> unit js" where
  "loadPreset_frontend b type =
     js_bind (js_lift (get_prop presets type)) (\<lambda>preset.
       if truthy preset then assign_preset b preset else js_return ())"

definition loadPreset_part000 :: "browser \<Rightarrow> string \<Rightarrow> unit js" where
  "loadPreset_part000 b type =
     js_bind (js_lift (get_prop presets type)) (\<lambda>preset.
       if truthy preset then assign_preset b preset else js_return ())"

text \<open>\<^verbatim>\<open>const preset = presets[presetName]; if (!preset) return; ...\<close>\<close>

definition loadPreset_part001 :: "browser \<Rightarrow> string \<Rightarrow> unit js" where
  "loadPreset_part001 b presetName =
     js_bind (js_lift (get_prop presets_part001 presetName)) (\<lambda>preset.
       if \<not> truthy preset then js_return () else assign_preset b preset)"

subsection \<open>setLoadingState, hideResults, showError\<close>

definition setLoadingState :: "bool \<Rightarrow> dom \<Rightarrow> dom" where
  "setLoadingState isLoading d =
     (if isLoading
      then d\<lparr>submitBtn_disabled := isLoading, btnText_display := ''none'',
             btnLoader_display := ''flex''\<rparr>
      else d\<lparr>submitBtn_disabled := isLoading, btnText_display := ''block'',
             btnLoader_display := ''none''\<rparr>)"

definition hideResults :: "dom \<Rightarrow> dom" where
  "hideResults d = d\<lparr>resultCard_display := ''none''\<rparr>"

text \<open>
  \<^verbatim>\<open>showError\<close> inserts an alert box that shows the message before the form (and
  removes it five seconds later; timers are not modelled).
\<close>

definition showError :: "string \<Rightarrow> dom \<Rightarrow> dom" where
  "showError message d = d\<lparr>errorAlerts := errorAlerts d @ [message]\<rparr>"

text \<open>\<^verbatim>\<open>error.message\<close>\<close>

fun error_message :: "browser \<Rightarrow> jserror \<Rightarrow> string" where
  "error_message b (Error m) = m"
| "error_message b (FetchFailed m) = m"
| "error_message b e = engineMessage b e"

subsection \<open>displayResults\<close>

text \<open>
  \<^verbatim>\<open>const range = confHigh - confLow; const position = ((prediction - confLow) / range) * 100\<close>,
  the same expression in the three copies, computed with no test of \<open>range\<close>.
\<close>

definition position :: "browser \<Rightarrow> jsval \<Rightarrow> jsval \<Rightarrow> jsval \<Rightarrow> jsnum" where
  "position b prediction confLow confHigh =
     (let range = num_sub (to_number b confHigh) (to_number b confLow)
      in num_mul (num_div (num_sub (to_number b prediction) (to_number b confLow)) range)
           (Fin 100))"

definition displayResults_frontend :: "browser \<Rightarrow> jsval \<Rightarrow> jsval \<Rightarrow> unit js" where
  "displayResults_frontend b data targetDate =
     js_then (js_update (\<lambda>d. d\<lparr>resultCard_display := ''block''\<rparr>)) (
     (let dateStr = localeDate b targetDate in
     js_bind (js_lift (get_prop data ''predicted_temperature'')) (\<lambda>predicted.
     js_bind (js_lift (call_toFixed b predicted 2)) (\<lambda>t.
     js_then (js_update (\<lambda>d. d\<lparr>tempValue := t\<rparr>)) (
     js_then (js_update (\<lambda>d. d\<lparr>resultDate := ''for '' @ dateStr\<rparr>)) (
     js_bind (js_lift (get_prop data ''confidence_interval'')) (\<lambda>ci.
     js_bind (js_lift (get_prop ci ''lower'')) (\<lambda>confLow.
     js_bind (js_lift (get_prop data ''confidence_interval'')) (\<lambda>ci2.
     js_bind (js_lift (get_prop ci2 ''upper'')) (\<lambda>confHigh.
     js_bind (js_lift (get_prop data ''predicted_temperature'')) (\<lambda>prediction.
     js_bind (js_lift (call_toFixed b confLow 2)) (\<lambda>lo.
     js_then (js_update (\<lambda>d. d\<lparr>confidenceLow := lo @ degC\<rparr>)) (
     js_bind (js_lift (call_toFixed b confHigh 2)) (\<lambda>hi.
     js_then (js_update (\<lambda>d. d\<lparr>confidenceHigh := hi @ degC\<rparr>)) (
     (let pos = position b prediction confLow confHigh in
     js_then (js_update (\<lambda>d. d\<lparr>rangeFill_width := num_to_string b pos @ ''%''\<rparr>)) (
     js_then (js_update (\<lambda>d. d\<lparr>rangeMarker_left := num_to_string b pos @ ''%''\<rparr>)) (
     js_bind (js_lift (get_prop data ''model_used'')) (\<lambda>used.
     js_then (js_update (\<lambda>d. d\<lparr>modelUsed := text_content b used\<rparr>)) (
     js_bind (js_lift (get_prop data ''model_metadata'')) (\<lambda>meta.
     js_bind (js_lift (if meta = JUndefined \<or> meta = JNull then Inr JUndefined else get_prop meta ''version'')) (\<lambda>version.
     js_update (\<lambda>d. d\<lparr>modelVersion := text_content b (js_or version (JStr ''1.0.0''))\<rparr>)))))))))))))))))))))))"

definition displayResults_part000 :: "browser \<Rightarrow> jsval \<Rightarrow> jsval \<Rightarrow> unit js" where
  "displayResults_part000 b data targetDate =
     js_then (js_update (\<lambda>d. d\<lparr>resultCard_display := ''block''\<rparr>)) (
     (let dateStr = localeDate b targetDate in
     js_bind (js_lift (get_prop data ''predicted_global_temperature_celsius'')) (\<lambda>prediction.
     js_bind (js_lift (call_toFixed b prediction 2)) (\<lambda>t.
     js_then (js_update (\<lambda>d. d\<lparr>tempValue := t\<rparr>)) (
     js_then (js_update (\<lambda>d. d\<lparr>resultDate := ''for '' @ dateStr\<rparr>)) (
     js_bind (js_lift (get_prop data ''confidence_interval'')) (\<lambda>ci.
     js_bind (js_lift (get_prop ci ''lower_bound'')) (\<lambda>confLow.
     js_bind (js_lift (get_prop data ''confidence_interval'')) (\<lambda>ci2.
     js_bind (js_lift (get_prop ci2 ''upper_bound'')) (\<lambda>confHigh.
     js_bind (js_lift (call_toFixed b confLow 2)) (\<lambda>lo.
     js_then (js_update (\<lambda>d. d\<lparr>confidenceLow := lo @ degC\<rparr>)) (
     js_bind (js_lift (call_toFixed b confHigh 2)) (\<lambda>hi.
     js_then (js_update (\<lambda>d. d\<lparr>confidenceHigh := hi @ degC\<rparr>)) (
     (let pos = position b prediction confLow confHigh in
     js_then (js_update (\<lambda>d. d\<lparr>rangeFill_width := num_to_string b pos @ ''%''\<rparr>)) (
     js_then (js_update (\<lambda>d. d\<lparr>rangeMarker_left := num_to_string b pos @ ''%''\<rparr>)) (
     js_bind (js_lift (get_prop data ''model_used'')) (\<lambda>used.
     js_then (js_update (\<lambda>d. d\<lparr>modelUsed := text_content b used\<rparr>)) (
     js_bind (js_lift (get_prop data ''model_version'')) (\<lambda>version.
     js_update (\<lambda>d. d\<lparr>modelVersion := text_content b (js_or version (JStr ''1.0''))\<rparr>)))))))))))))))))))))"

text \<open>The third copy takes the date from the response and shows the card last.\<close>

definition displayResults_part001 :: "browser \<Rightarrow> jsval \<Rightarrow> unit js" where
  "displayResults_part001 b result =
     js_bind (js_lift (get_prop result ''predicted_global_temperature_celsius'')) (\<lambda>p.
     js_bind (js_lift (call_toFixed b p 1)) (\<lambda>t.
     js_then (js_update (\<lambda>d. d\<lparr>tempValue := t\<rparr>)) (
     js_bind (js_lift (get_prop result ''date'')) (\<lambda>date.
     js_then (js_update (\<lambda>d. d\<lparr>resultDate := ''for '' @ localeDate b date\<rparr>)) (
     js_bind (js_lift (get_prop result ''confidence_interval'')) (\<lambda>confidence.
     js_bind (js_lift (get_prop confidence ''lower_bound'')) (\<lambda>low.
     js_then (js_update (\<lambda>d. d\<lparr>confidenceLow := to_string b low @ degC\<rparr>)) (
     js_bind (js_lift (get_prop confidence ''upper_bound'')) (\<lambda>high.
     js_then (js_update (\<lambda>d. d\<lparr>confidenceHigh := to_string b high @ degC\<rparr>)) (
     js_bind (js_lift (get_prop result ''predicted_global_temperature_celsius'')) (\<lambda>predictedTemp.
     js_bind (js_lift (get_prop confidence ''lower_bound'')) (\<lambda>lowBound.
     js_bind (js_lift (get_prop confidence ''upper_bound'')) (\<lambda>highBound.
     (let pos = position b predictedTemp lowBound highBound in
     js_then (js_update (\<lambda>d. d\<lparr>rangeMarker_left := ''calc('' @ num_to_string b pos @ ''% - 2px)''\<rparr>)) (
     js_bind (js_lift (get_prop result ''model_used'')) (\<lambda>used.
     js_then (js_update (\<lambda>d. d\<lparr>modelUsed := text_content b used\<rparr>)) (
     js_bind (js_lift (get_prop result ''model_version'')) (\<lambda>version.
     js_then (js_update (\<lambda>d. d\<lparr>modelVersion := text_content b version\<rparr>)) (
     js_update (\<lambda>d. d\<lparr>resultCard_display := ''block''\<rparr>))))))))))))))))))))"

subsection \<open>handlePrediction\<close>

text \<open>
  How a call of \<^verbatim>\<open>fetch\<close> ends: the promise rejects (network failure, CORS) with an
  error message, or it resolves with a response, given by its status and by what
  \<^verbatim>\<open>response.json()\<close> resolves to (\<open>None\<close> when the body is not JSON and the promise
  rejects). \<^verbatim>\<open>response.ok\<close> is a status from 200 to 299.

  A call of \<^verbatim>\<open>handlePrediction\<close> is modelled from its first statement to the end of its
  \<^verbatim>\<open>finally\<close> block, with nothing else running at its \<^verbatim>\<open>await\<close>s.
\<close>

datatype fetch_result = FetchRejects string | FetchResponse nat "jsval option"

definition response_ok :: "nat \<Rightarrow> bool" where
  "response_ok status = (200 \<le> status \<and> status \<le> 299)"

definition js_fetch :: "(http_request \<Rightarrow> fetch_result) \<Rightarrow> http_request \<Rightarrow> fetch_result js" where
  "js_fetch net r = (\<lambda>d. (Inr (net r), d\<lparr>fetched := fetched d @ [r]\<rparr>))"

definition formData_frontend :: "browser \<Rightarrow> dom \<Rightarrow> jsval" where
  "formData_frontend b d =
     JObj [(''target_date'', JStr (targetDate_value d)),
           (''pressure_millibars'', JNum (parseFloat b (pressure_value d))),
           (''humidity'', JNum (parseFloat b (humidity_value d))),
           (''wind_speed_kmh'', JNum (parseFloat b (wind_value d))),
           (''precip_mm'', JNum (parseFloat b (precipitation_value d)))]"

text \<open>The same object literal in \<^verbatim>\<open>part_000\<close> and \<^verbatim>\<open>part_001\<close>.\<close>

definition formData :: "browser \<Rightarrow> dom \<Rightarrow> jsval" where
  "formData b d =
     JObj [(''target_date'', JStr (targetDate_value d)),
           (''pressure_mean'', JNum (parseFloat b (pressure_value d))),
           (''humidity_mean'', JNum (parseFloat b (humidity_value d))),
           (''wind_mean'', JNum (parseFloat b (wind_value d))),
           (''precip_mean'', JNum (parseFloat b (precipitation_value d)))]"

definition predict_request :: "string \<Rightarrow> jsval \<Rightarrow> http_request" where
  "predict_request base fd =
     \<lparr>req_url = base @ ''/predict_temperature/'', req_method = ''POST'',
      req_content_type = ''application/json'', req_body = JSON_stringify fd\<rparr>"

text \<open>
  The \<^verbatim>\<open>try\<close> block of \<^verbatim>\<open>src/frontend/script.js\<close> and \<^verbatim>\<open>part_000\<close>, which differ in
  the form data and in \<^verbatim>\<open>displayResults\<close> only.
\<close>

definition try_predict ::
  "browser \<Rightarrow> (http_request \<Rightarrow> fetch_result) \<Rightarrow> jsval \<Rightarrow> (jsval \<Rightarrow> jsval \<Rightarrow> unit js) \<Rightarrow> unit js" where
  "try_predict b net fd display =
     js_bind (js_fetch net (predict_request (API_BASE_URL b) fd)) (\<lambda>response.
       case response of
         FetchRejects m \<Rightarrow> js_throw (FetchFailed m)
       | FetchResponse status json \<Rightarrow>
           if \<not> response_ok status then
             (let errorData = (case json of None \<Rightarrow> JObj [] | Some v \<Rightarrow> v) in
              js_bind (js_lift (get_prop errorData ''detail'')) (\<lambda>detail.
              js_throw (Error (to_string b
                (js_or detail (JStr (''Server error: '' @ numberToString b (of_nat status))))))))
           else
             (case json of
                None \<Rightarrow> js_throw SyntaxError
              | Some result \<Rightarrow>
                  js_bind (js_lift (get_prop fd ''target_date'')) (\<lambda>target.
                  display result target)))"

definition handlePrediction_frontend ::
  "browser \<Rightarrow> (http_request \<Rightarrow> fetch_result) \<Rightarrow> dom \<Rightarrow> dom" where
  "handlePrediction_frontend b net d =
     (let fd = formData_frontend b d;
          d1 = hideResults (setLoadingState True d);
          (r, d2) = try_predict b net fd (displayResults_frontend b) d1;
          d3 = (case r of Inl e \<Rightarrow> showError (error_message b e) d2 | Inr u \<Rightarrow> d2)
      in setLoadingState False d3)"

definition handlePrediction_part000 ::
  "browser \<Rightarrow> (http_request \<Rightarrow> fetch_result) \<Rightarrow> dom \<Rightarrow> dom" where
  "handlePrediction_part000 b net d =
     (let fd = formData b d;
          d1 = hideResults (setLoadingState True d);
          (r, d2) = try_predict b net fd (displayResults_part000 b) d1;
          d3 = (case r of Inl e \<Rightarrow> showError (error_message b e) d2 | Inr u \<Rightarrow> d2)
      in setLoadingState False d3)"

text \<open>
  The third copy sets the loading state itself, does not catch a failure of
  \<^verbatim>\<open>response.json()\<close> on an error response, and reports with \<^verbatim>\<open>alert\<close>.
\<close>

definition try_predict_part001 ::
  "browser \<Rightarrow> (http_request \<Rightarrow> fetch_result) \<Rightarrow> jsval \<Rightarrow> unit js" where
  "try_predict_part001 b net fd =
     js_bind (js_fetch net (predict_request API_BASE_URL_part001 fd)) (\<lambda>response.
       case response of
         FetchRejects m \<Rightarrow> js_throw (FetchFailed m)
       | FetchResponse status json \<Rightarrow>
           if \<not> response_ok status then
             (case json of
                None \<Rightarrow> js_throw SyntaxError
              | Some errorData \<Rightarrow>
                  js_bind (js_lift (get_prop errorData ''detail'')) (\<lambda>detail.
                  js_throw (Error (to_string b (js_or detail (JStr ''Prediction failed''))))))
           else
             (case json of
                None \<Rightarrow> js_throw SyntaxError
              | Some result \<Rightarrow> displayResults_part001 b result))"

definition alert_text :: "string \<Rightarrow> string" where
  "alert_text message =
     ''Error: '' @ message @ newline @ newline @
     ''Please ensure the API server is running:'' @ newline @ ''python start_api.py''"

definition handlePrediction_part001 ::
  "browser \<Rightarrow> (http_request \<Rightarrow> fetch_result) \<Rightarrow> dom \<Rightarrow> dom" where
  "handlePrediction_part001 b net d =
     (let d1 = d\<lparr>submitBtn_disabled := True, btnText_display := ''none'',
                 btnLoader_display := ''inline-flex'', resultCard_display := ''none''\<rparr>;
          fd = formData b d1;
          (r, d2) = try_predict_part001 b net fd d1;
          d3 = (case r of
                  Inl e \<Rightarrow> d2\<lparr>alerts := alerts d2 @ [alert_text (error_message b e)]\<rparr>
                | Inr u \<Rightarrow> d2)
      in d3\<lparr>submitBtn_disabled := False, btnText_display := ''inline'',
            btnLoader_display := ''none''\<rparr>)"

section \<open>An example browser\<close>

text \<open>
  A concrete environment on which the script is evaluated in the examples below. Its
  number functions cover plain decimal notation (an optional sign, digits, an optional
  fraction); its date function prints the date text as it is given.
\<close>

definition digit_char :: "nat \<Rightarrow> char" where
  "digit_char n = ''0123456789'' ! n"

definition digit_value :: "char \<Rightarrow> nat" where
  "digit_value c = length (takeWhile (\<lambda>x. x \<noteq> c) ''0123456789'')"

definition is_digit :: "char \<Rightarrow> bool" where
  "is_digit c = (digit_value c < 10)"

definition digits_to_nat :: "string \<Rightarrow> nat" where
  "digits_to_nat ds = foldl (\<lambda>a c. 10 * a + digit_value c) 0 ds"

fun nat_to_digits :: "nat \<Rightarrow> string" where
  "nat_to_digits n =
     (if n < 10 then [digit_char n] else nat_to_digits (n div 10) @ [digit_char (n mod 10)])"

declare nat_to_digits.simps [simp del]

fun frac_digits :: "nat \<Rightarrow> rat \<Rightarrow> string" where
  "frac_digits 0 f = []"
| "frac_digits (Suc n) f =
     (if f = 0 then []
      else digit_char (nat \<lfloor>f * 10\<rfloor>) # frac_digits n (f * 10 - of_int \<lfloor>f * 10\<rfloor>))"

definition decimal_prefix :: "string \<Rightarrow> rat option \<times> string" where
  "decimal_prefix s =
     (let (neg, r) = (case s of
                        [] \<Rightarrow> (False, s)
                      | c # t \<Rightarrow> if c = CHR ''-'' then (True, t)
                                 else if c = CHR ''+'' then (False, t) else (False, s));
          ip = takeWhile is_digit r;
          r1 = dropWhile is_digit r;
          (fp, r2) = (case r1 of
                        [] \<Rightarrow> ([], r1)
                      | c # t \<Rightarrow> if c = CHR ''.''
                                 then (takeWhile is_digit t, dropWhile is_digit t)
                                 else ([], r1))
      in if ip = [] \<and> fp = [] then (None, s)
         else (Some ((if neg then - 1 else 1) *
                 (of_nat (digits_to_nat ip) + of_nat (digits_to_nat fp) / 10 ^ length fp)),
               r2))"

definition example_parseFloat :: "string \<Rightarrow> jsnum" where
  "example_parseFloat s =
     (case fst (decimal_prefix (dropWhile (\<lambda>c. c = CHR '' '') s)) of
        None \<Rightarrow> NaN
      | Some q \<Rightarrow> Fin q)"

definition example_stringToNumber :: "string \<Rightarrow> jsnum" where
  "example_stringToNumber s =
     (let t = dropWhile (\<lambda>c. c = CHR '' '') s
      in if t = [] then Fin 0
         else (case decimal_prefix t of
                 (Some q, rest) \<Rightarrow> if rest = [] then Fin q else NaN
               | (None, rest) \<Rightarrow> NaN))"

definition example_numberToString :: "rat \<Rightarrow> string" where
  "example_numberToString q =
     (let a = \<bar>q\<bar>; ip = nat \<lfloor>a\<rfloor>; f = a - of_int \<lfloor>a\<rfloor>
      in (if q < 0 then ''-'' else []) @ nat_to_digits ip @
         (if f = 0 then [] else ''.'' @ frac_digits 20 f))"

definition example_numberToFixed :: "rat \<Rightarrow> nat \<Rightarrow> string" where
  "example_numberToFixed q n =
     (let m = nat \<lfloor>\<bar>q\<bar> * 10 ^ n + 1 / 2\<rfloor>;
          fs = nat_to_digits (m mod 10 ^ n)
      in (if q < 0 then ''-'' else []) @ nat_to_digits (m div 10 ^ n) @
         (if n = 0 then [] else ''.'' @ replicate (n - length fs) (CHR ''0'') @ fs))"

definition example_browser :: browser where
  "example_browser =
     \<lparr>env_api_url = None,
      parseFloat = example_parseFloat,
      stringToNumber = example_stringToNumber,
      numberToString = example_numberToString,
      numberToFixed = example_numberToFixed,
      localeDate = (\<lambda>v. case v of JStr s \<Rightarrow> s | _ \<Rightarrow> ''Invalid Date''),
      builtinToString = (\<lambda>n. ''function '' @ n @ ''() { [native code] }''),
      engineMessage = (\<lambda>e. case e of TypeError \<Rightarrow> ''TypeError''
                            | SyntaxError \<Rightarrow> ''SyntaxError''
                            | FetchFailed m \<Rightarrow> m | Error m \<Rightarrow> m)\<rparr>"

text \<open>A page with the form filled in and nothing shown yet.\<close>

definition example_page :: dom where
  "example_page =
     \<lparr>targetDate_value = ''2024-12-25'', pressure_value = ''1015.2'',
      humidity_value = ''68.0'', wind_value = ''15.5'', precipitation_value = ''1.2'',
      submitBtn_disabled = False, btnText_display = [], btnLoader_display = ''none'',
      resultCard_display = ''none'', tempValue = ''--'', resultDate = [],
      confidenceLow = [], confidenceHigh = [], rangeFill_width = [],
      rangeMarker_left = [], modelUsed = [], modelVersion = [],
      errorAlerts = [], alerts = [], fetched = []\<rparr>"

text \<open>The sample response of the repository's README, a response the HTTP contract allows.\<close>

definition readme_response :: jsval where
  "readme_response =
     JObj [(''date'', JStr ''2024-12-25''),
           (''predicted_global_temperature_celsius'', JNum (Fin 15.23)),
           (''model_used'', JStr ''Ensemble Stacking Regressor (XGBoost + RidgeCV)''),
           (''confidence_interval'',
              JObj [(''lower_bound'', JNum (Fin 13.23)),
                    (''upper_bound'', JNum (Fin 17.23)),
                    (''confidence_level'', JStr ''~95%'')]),
           (''model_version'', JStr ''1.0'')]"

section \<open>Notions used to state the properties of the script\<close>

text \<open>
  A response that conforms to the HTTP contract of \<^verbatim>\<open>POST /predict_temperature/\<close>:
  \<^verbatim>\<open>{date, predicted_global_temperature_celsius: number, model_used: string,
  confidence_interval: {lower_bound: number, upper_bound: number, confidence_level: string},
  model_version: string}\<close>, with the given values.
\<close>

definition conforms ::
  "jsval \<Rightarrow> string \<Rightarrow> rat \<Rightarrow> string \<Rightarrow> rat \<Rightarrow> rat \<Rightarrow> string \<Rightarrow> string \<Rightarrow> bool" where
  "conforms data date x used lo hi level version =
     (get_prop data ''date'' = Inr (JStr date) \<and>
      get_prop data ''predicted_global_temperature_celsius'' = Inr (JNum (Fin x)) \<and>
      get_prop data ''model_used'' = Inr (JStr used) \<and>
      (case get_prop data ''confidence_interval'' of
         Inl e \<Rightarrow> False
       | Inr ci \<Rightarrow> get_prop ci ''lower_bound'' = Inr (JNum (Fin lo)) \<and>
                  get_prop ci ''upper_bound'' = Inr (JNum (Fin hi)) \<and>
                  get_prop ci ''confidence_level'' = Inr (JStr level)) \<and>
      get_prop data ''model_version'' = Inr (JStr version))"

text \<open>How a number stands in a JSON text: as itself when finite, else as \<^verbatim>\<open>null\<close>.\<close>

definition json_number :: "jsnum \<Rightarrow> jsval" where
  "json_number n = (if is_finite n then JNum n else JNull)"

text \<open>A statement sequence leaves a component of the page as it was.\<close>

definition keeps :: "(dom \<Rightarrow> 'x) \<Rightarrow> 'a js \<Rightarrow> bool" where
  "keeps part m = (\<forall>d. part (snd (m d)) = part d)"

text \<open>
  The fetch brought no prediction: it rejected, or the status is not ok, or the body of
  the response cannot be read as JSON.
\<close>

definition no_result :: "fetch_result \<Rightarrow> bool" where
  "no_result r =
     (case r of
        FetchRejects m \<Rightarrow> True
      | FetchResponse status json \<Rightarrow> \<not> response_ok status \<or> json = None)"

definition ready_for_input :: "dom \<Rightarrow> bool" where
  "ready_for_input d = (\<not> submitBtn_disabled d \<and> btnLoader_display d = ''none'')"

definition card_hidden :: "dom \<Rightarrow> bool" where
  "card_hidden d = (resultCard_display d = ''none'')"

text \<open>The page with the four preset fields holding the text of four numbers.\<close>

definition filled :: "browser \<Rightarrow> rat \<Rightarrow> rat \<Rightarrow> rat \<Rightarrow> rat \<Rightarrow> dom \<Rightarrow> dom" where
  "filled b p h w r d =
     d\<lparr>pressure_value := numberToString b p, humidity_value := numberToString b h,
       wind_value := numberToString b w, precipitation_value := numberToString b r\<rparr>"

text \<open>
  Two example networks: one that is unreachable, and a server that answers every
  request with status 422 and a detail message.
\<close>

definition offline :: "http_request \<Rightarrow> fetch_result" where
  "offline r = FetchRejects ''Failed to fetch''"

definition rejecting :: "http_request \<Rightarrow> fetch_result" where
  "rejecting r = FetchResponse 422 (Some (JObj [(''detail'', JStr ''bad date'')]))"

text \<open>
  Two more example pages: the form with the pressure field left empty, and the page
  after an earlier prediction, its result card showing.
\<close>

definition blank_pressure_page :: dom where
  "blank_pressure_page = example_page\<lparr>pressure_value := []\<rparr>"

definition shown_page :: dom where
  "shown_page = example_page\<lparr>resultCard_display := ''block'', tempValue := ''15.23''\<rparr>"

text \<open>The example page with the text of \<^verbatim>\<open>undefined\<close> in the four preset fields.\<close>

definition unfilled_page :: dom where
  "unfilled_page =
     example_page\<lparr>pressure_value := ''undefined'', humidity_value := ''undefined'',
       wind_value := ''undefined'', precipitation_value := ''undefined''\<rparr>"

text \<open>
  A response whose interval has collapsed to the point \<open>l\<close>, with prediction \<open>x\<close>.
\<close>

definition collapsed_response :: "rat \<Rightarrow> rat \<Rightarrow> jsval" where
  "collapsed_response x l =
     JObj [(''date'', JStr ''2024-12-25''),
           (''predicted_global_temperature_celsius'', JNum (Fin x)),
           (''model_used'', JStr ''Ensemble Stacking Regressor (XGBoost + RidgeCV)''),
           (''confidence_interval'',
              JObj [(''lower_bound'', JNum (Fin l)),
                    (''upper_bound'', JNum (Fin l)),
                    (''confidence_level'', JStr ''~95%'')]),
           (''model_version'', JStr ''1.0'')]"

section \<open>The prediction service\<close>

text \<open>
  The service behind \<^verbatim>\<open>POST /predict_temperature/\<close> (\<^verbatim>\<open>src/app.py\<close> in the README's
  project layout) is not among the sources; the script above is its caller. Its request
  validation, its Feature Builder, its startup check, its Ensemble Predictor and its
  Confidence Interval Estimator are modelled from the specification. Numbers are
  rationals.
\<close>

text \<open>
  Modelled from the spec: the error taxonomy of section 7 (the service's error types are
  missing). A \<open>ValidationError\<close> carries the name of the offending field, the other two a
  description.
\<close>

datatype error = ValidationError string | ConfigurationError string | ModelInferenceError string

text \<open>
  Modelled from the spec: the leap years of the Gregorian calendar, for the calendar
  features of the Feature Builder (the service's date handling is missing).
\<close>

definition leap_year :: "nat \<Rightarrow> bool" where
  "leap_year y = ((y mod 4 = 0 \<and> y mod 100 \<noteq> 0) \<or> y mod 400 = 0)"

text \<open>
  Modelled from the spec: the length of month \<open>m\<close> of year \<open>y\<close>, for the day-of-year
  feature (the service's date handling is missing).
\<close>

definition days_in_month :: "nat \<Rightarrow> nat \<Rightarrow> nat" where
  "days_in_month y m =
     (if m = 2 then (if leap_year y then 29 else 28)
      else if m \<in> set [4, 6, 9, 11] then 30 else 31)"

text \<open>
  Modelled from the spec: the day-of-year feature of section 4.1 (the service's date
  handling is missing): the days of the months before, and the day of the month.
\<close>

definition day_of_year :: "nat \<Rightarrow> nat \<Rightarrow> nat \<Rightarrow> nat" where
  "day_of_year y m d = sum_list (map (days_in_month y) [1..<m]) + d"

text \<open>
  Modelled from the spec: parsing of the target date, an ISO-8601 calendar date
  \<^verbatim>\<open>YYYY-MM-DD\<close> (the service's request schema is missing). The result is year, month
  and day of a date that exists.
\<close>

definition parse_date :: "string \<Rightarrow> (nat \<times> nat \<times> nat) option" where
  "parse_date s =
     (if length s = 10 \<and> s ! 4 = CHR ''-'' \<and> s ! 7 = CHR ''-'' \<and>
         list_all is_digit (take 4 s @ take 2 (drop 5 s) @ drop 8 s)
      then (let y = digits_to_nat (take 4 s);
                m = digits_to_nat (take 2 (drop 5 s));
                d = digits_to_nat (drop 8 s)
            in if 1 \<le> m \<and> m \<le> 12 \<and> 1 \<le> d \<and> d \<le> days_in_month y m
               then Some (y, m, d) else None)
      else None)"

text \<open>
  Modelled from the spec: PredictionRequest of section 3 (the service's request type is
  missing): the target date and the four meteorological means, all present and finite.
\<close>

record request =
  target_year :: nat
  target_month :: nat
  target_day :: nat
  pressure_mean :: rat
  humidity_mean :: rat
  wind_mean :: rat
  precip_mean :: rat

text \<open>
  Modelled from the spec: a field of the request body, the JSON value the client sent
  (the service's request schema is missing); \<open>None\<close> when the field is absent.
\<close>

definition body_field :: "jsval \<Rightarrow> string \<Rightarrow> jsval option" where
  "body_field body k = (case body of JObj kvs \<Rightarrow> map_of kvs k | _ \<Rightarrow> None)"

text \<open>
  Modelled from the spec: the target date of a request (the service's request schema is
  missing): a date that is absent, not a string or malformed is a \<open>ValidationError\<close>
  naming \<^verbatim>\<open>target_date\<close>.
\<close>

definition date_field :: "jsval \<Rightarrow> error + nat \<times> nat \<times> nat" where
  "date_field body =
     (case body_field body ''target_date'' of
        Some (JStr s) \<Rightarrow>
          (case parse_date s of
             Some ymd \<Rightarrow> Inr ymd
           | None \<Rightarrow> Inl (ValidationError ''target_date''))
      | _ \<Rightarrow> Inl (ValidationError ''target_date''))"

text \<open>
  Modelled from the spec: a meteorological mean of a request (the service's request
  schema is missing): a field that is absent or not a finite number is a
  \<open>ValidationError\<close> naming that field.
\<close>

definition numeric_field :: "jsval \<Rightarrow> string \<Rightarrow> error + rat" where
  "numeric_field body k =
     (case body_field body k of
        Some (JNum (Fin q)) \<Rightarrow> Inr q
      | _ \<Rightarrow> Inl (ValidationError k))"

text \<open>
  Modelled from the spec: validation at the request boundary (the service's request
  handler is missing). The fields are checked in the order of the HTTP contract, and
  the first that fails gives the error.
\<close>

definition validate :: "jsval \<Rightarrow> error + request" where
  "validate body =
     (case date_field body of Inl e \<Rightarrow> Inl e | Inr (y, m, d) \<Rightarrow>
      case numeric_field body ''pressure_mean'' of Inl e \<Rightarrow> Inl e | Inr p \<Rightarrow>
      case numeric_field body ''humidity_mean'' of Inl e \<Rightarrow> Inl e | Inr h \<Rightarrow>
      case numeric_field body ''wind_mean'' of Inl e \<Rightarrow> Inl e | Inr w \<Rightarrow>
      case numeric_field body ''precip_mean'' of Inl e \<Rightarrow> Inl e | Inr r \<Rightarrow>
        Inr \<lparr>target_year = y, target_month = m, target_day = d, pressure_mean = p,
             humidity_mean = h, wind_mean = w, precip_mean = r\<rparr>)"

text \<open>
  Modelled from the spec: the persisted metadata record of section 6 (the service's
  artifact files are missing): the feature-name list, the feature count, the error
  statistic, the version and the training date.
\<close>

record metadata =
  feature_names :: "string list"
  feature_count :: nat
  error_statistic :: rat
  model_version :: string
  training_date :: string

text \<open>
  Modelled from the spec: the names of the features of section 4.1 (the training-time
  schema is missing). The first four names are those of the README's \<^verbatim>\<open>/model_info\<close>
  sample; the specification names none.
\<close>

definition known_features :: "string list" where
  "known_features =
     [''dayofyear'', ''month'', ''day'', ''temp_lag1'', ''temp_lag7'', ''temp_roll7'',
      ''pressure_mean'', ''humidity_mean'', ''wind_mean'', ''precip_mean'']"

text \<open>
  Modelled from the spec: the features of section 4.1 (the service's Feature Builder is
  missing): day of month, month and day of year of the target date; the most recent
  temperature of the historical buffer, the temperature seven observations back and the
  mean of the last seven; the four means of the request, copied. The buffer is ordered
  from the oldest observation to the newest.
\<close>

definition feature_value :: "request \<Rightarrow> rat list \<Rightarrow> string \<Rightarrow> rat option" where
  "feature_value req buf n =
     (if n = ''dayofyear''
        then Some (of_nat (day_of_year (target_year req) (target_month req) (target_day req)))
      else if n = ''month'' then Some (of_nat (target_month req))
      else if n = ''day'' then Some (of_nat (target_day req))
      else if n = ''temp_lag1'' then (if buf = [] then None else Some (last buf))
      else if n = ''temp_lag7''
        then (if length buf < 7 then None else Some (buf ! (length buf - 7)))
      else if n = ''temp_roll7''
        then (if length buf < 7 then None
              else Some (sum_list (drop (length buf - 7) buf) / 7))
      else if n = ''pressure_mean'' then Some (pressure_mean req)
      else if n = ''humidity_mean'' then Some (humidity_mean req)
      else if n = ''wind_mean'' then Some (wind_mean req)
      else if n = ''precip_mean'' then Some (precip_mean req)
      else None)"

text \<open>
  Modelled from the spec: assembling the vector strictly in the order of the metadata's
  feature-name list (the service's Feature Builder is missing).
\<close>

fun assemble :: "(string \<Rightarrow> rat option) \<Rightarrow> string list \<Rightarrow> rat list option" where
  "assemble f [] = Some []"
| "assemble f (n # ns) =
     (case f n of
        None \<Rightarrow> None
      | Some x \<Rightarrow> (case assemble f ns of None \<Rightarrow> None | Some xs \<Rightarrow> Some (x # xs)))"

text \<open>
  Modelled from the spec: \<^verbatim>\<open>build(request, historical_buffer, metadata)\<close> of section 4.1
  (the service's Feature Builder is missing). A buffer of fewer than seven entries, a
  feature name that cannot be assembled and a vector whose length is not the metadata's
  count are configuration errors.
\<close>

definition build :: "request \<Rightarrow> rat list \<Rightarrow> metadata \<Rightarrow> error + rat list" where
  "build req buf md =
     (if length buf < 7 then Inl (ConfigurationError ''historical buffer'')
      else (case assemble (feature_value req buf) (feature_names md) of
              None \<Rightarrow> Inl (ConfigurationError ''feature schema'')
            | Some v \<Rightarrow>
                if length v \<noteq> feature_count md then Inl (ConfigurationError ''feature count'')
                else Inr v))"

text \<open>
  Modelled from the spec: what is loaded once at startup (the service's loader is
  missing): whether the model files loaded, the historical-temperature table and the
  metadata record, the last two absent when their file failed to load.
\<close>

record artifacts =
  model_loaded :: bool
  historical_temps :: "rat list option"
  feature_metadata :: "metadata option"

text \<open>
  Modelled from the spec: the read-only context of section 9 that a successful startup
  yields and every request is served with (the service's shared state is missing).
\<close>

record service_context =
  ctx_buffer :: "rat list"
  ctx_metadata :: metadata

text \<open>
  Modelled from the spec: process startup (the service's loader is missing). It fails
  fast when an artifact failed to load, when the historical buffer has fewer than seven
  entries, and when the features that can be assembled do not match the metadata's
  names and count; no request is served unless it returns a context.
\<close>

definition startup :: "artifacts \<Rightarrow> error + service_context" where
  "startup a =
     (if \<not> model_loaded a then Inl (ConfigurationError ''model'')
      else (case historical_temps a of
              None \<Rightarrow> Inl (ConfigurationError ''historical data'')
            | Some buf \<Rightarrow>
               (case feature_metadata a of
                  None \<Rightarrow> Inl (ConfigurationError ''metadata'')
                | Some md \<Rightarrow>
                    if length buf < 7 then Inl (ConfigurationError ''historical buffer'')
                    else if \<not> list_all (\<lambda>n. n \<in> set known_features) (feature_names md)
                      then Inl (ConfigurationError ''feature schema'')
                    else if length (feature_names md) \<noteq> feature_count md
                      then Inl (ConfigurationError ''feature count'')
                    else Inr \<lparr>ctx_buffer = buf, ctx_metadata = md\<rparr>)))"

text \<open>
  Modelled from the spec: the per-request path from the request body to the feature
  vector, Request \<open>\<rightarrow>\<close> Feature Builder of section 2 (the service's request handler is
  missing).
\<close>

definition request_features :: "service_context \<Rightarrow> jsval \<Rightarrow> error + rat list" where
  "request_features ctx body =
     (case validate body of
        Inl e \<Rightarrow> Inl e
      | Inr req \<Rightarrow> build req (ctx_buffer ctx) (ctx_metadata ctx))"

text \<open>
  Modelled from the spec: ModelArtifact of section 3 (the model files are missing): the
  feature scaler, the two base estimators and the meta-estimator, each opaque beyond a
  call that returns a value or fails.
\<close>

record model_artifact =
  scaler_transform :: "rat list \<Rightarrow> rat list option"
  boosted_predict :: "rat list \<Rightarrow> rat option"
  ridge_predict :: "rat list \<Rightarrow> rat option"
  meta_predict :: "rat list \<Rightarrow> rat option"

text \<open>
  Modelled from the spec: the Ensemble Predictor of section 4.2 (the service's predictor
  is missing): the scaler, then both base estimators on the scaled vector, then the
  meta-estimator on their two outputs; a stage that fails gives a
  \<open>ModelInferenceError\<close> carrying the name of the stage.
\<close>

definition ensemble_predict :: "model_artifact \<Rightarrow> rat list \<Rightarrow> error + rat" where
  "ensemble_predict m v =
     (case scaler_transform m v of
        None \<Rightarrow> Inl (ModelInferenceError ''scaler'')
      | Some scaled \<Rightarrow>
         (case boosted_predict m scaled of
            None \<Rightarrow> Inl (ModelInferenceError ''boosted-tree'')
          | Some a \<Rightarrow>
             (case ridge_predict m scaled of
                None \<Rightarrow> Inl (ModelInferenceError ''ridge'')
              | Some c \<Rightarrow>
                 (case meta_predict m [a, c] of
                    None \<Rightarrow> Inl (ModelInferenceError ''meta-learner'')
                  | Some p \<Rightarrow> Inr p))))"

text \<open>
  Modelled from the spec: the half-width of section 4.3 (the service's interval code is
  missing): the error statistic persisted in the metadata, a parameter of the artifact.
\<close>

definition halfwidth :: "metadata \<Rightarrow> rat" where
  "halfwidth md = error_statistic md"

text \<open>
  Modelled from the spec: the label of the interval of section 4.3 (the service's
  interval code is missing), a fixed descriptive string.
\<close>

definition confidence_label :: string where
  "confidence_label = ''~95%''"

text \<open>
  Modelled from the spec: \<^verbatim>\<open>interval(point_estimate, metadata)\<close> of section 4.3 (the
  service's Confidence Interval Estimator is missing): lower bound, upper bound and label.
\<close>

definition interval :: "rat \<Rightarrow> metadata \<Rightarrow> rat \<times> rat \<times> string" where
  "interval point md = (point - halfwidth md, point + halfwidth md, confidence_label)"

text \<open>
  Modelled from the spec: PredictionResult of section 3 (the service's response type is
  missing): the echoed target date, the point estimate, the interval with its label and
  the model version. The model identifier, which the metadata record of section 6 does
  not hold, is left out.
\<close>

record prediction_result =
  result_date :: "nat \<times> nat \<times> nat"
  result_point :: rat
  result_lower :: rat
  result_upper :: rat
  result_level :: string
  result_version :: string

text \<open>
  Modelled from the spec: the control flow of section 2, Request \<open>\<rightarrow>\<close> Feature Builder
  \<open>\<rightarrow>\<close> Ensemble Predictor \<open>\<rightarrow>\<close> Confidence Interval Estimator \<open>\<rightarrow>\<close> Response (the
  service's request handler is missing).
\<close>

definition predict_temperature ::
  "model_artifact \<Rightarrow> service_context \<Rightarrow> jsval \<Rightarrow> error + prediction_result" where
  "predict_temperature m ctx body =
     (case validate body of
        Inl e \<Rightarrow> Inl e
      | Inr req \<Rightarrow>
         (case build req (ctx_buffer ctx) (ctx_metadata ctx) of
            Inl e \<Rightarrow> Inl e
          | Inr v \<Rightarrow>
             (case ensemble_predict m v of
                Inl e \<Rightarrow> Inl e
              | Inr point \<Rightarrow>
                 (case interval point (ctx_metadata ctx) of
                    (lo, hi, level) \<Rightarrow>
                      Inr \<lparr>result_date = (target_year req, target_month req, target_day req),
                           result_point = point, result_lower = lo, result_upper = hi,
                           result_level = level,
                           result_version = model_version (ctx_metadata ctx)\<rparr>))))"

text \<open>An example: artifacts of the README's shape and the request body of its sample call.\<close>

definition example_metadata :: metadata where
  "example_metadata =
     \<lparr>feature_names = known_features, feature_count = 10, error_statistic = 2,
      model_version = ''1.0'', training_date = ''2024-11-10''\<rparr>"

definition example_artifacts :: artifacts where
  "example_artifacts =
     \<lparr>model_loaded = True,
      historical_temps = Some [14, 14.5, 15, 15.5, 15, 14.5, 16],
      feature_metadata = Some example_metadata\<rparr>"

definition example_context :: service_context where
  "example_context =
     \<lparr>ctx_buffer = [14, 14.5, 15, 15.5, 15, 14.5, 16], ctx_metadata = example_metadata\<rparr>"

definition example_body :: jsval where
  "example_body =
     JObj [(''target_date'', JStr ''2024-12-25''), (''pressure_mean'', JNum (Fin 1015.2)),
           (''humidity_mean'', JNum (Fin 68)), (''wind_mean'', JNum (Fin 15.5)),
           (''precip_mean'', JNum (Fin 1.2))]"

text \<open>Artifacts whose historical table holds two observations only.\<close>

definition short_artifacts :: artifacts where
  "short_artifacts = example_artifacts\<lparr>historical_temps := Some [14, 14.5]\<rparr>"

text \<open>Artifacts whose metadata declares nine features and names ten.\<close>

definition miscounted_artifacts :: artifacts where
  "miscounted_artifacts =
     example_artifacts\<lparr>feature_metadata := Some (example_metadata\<lparr>feature_count := 9\<rparr>)\<rparr>"

definition example_request :: request where
  "example_request =
     \<lparr>target_year = 2024, target_month = 12, target_day = 25, pressure_mean = 1015.2,
      humidity_mean = 68, wind_mean = 15.5, precip_mean = 1.2\<rparr>"



section \<open>Properties of the form script\<close>

subsection \<open>Statement sequences\<close>

lemma js_bind_lift_Inr [simp]: "js_bind (js_lift (Inr x)) f = f x"
  by (simp add: js_bind_def js_lift_def)

lemma js_bind_lift_Inl [simp]: "js_bind (js_lift (Inl e)) f = js_throw e"
  by (simp add: js_bind_def js_lift_def js_throw_def)

lemma js_then_update [simp]: "js_then (js_update g) k d = k (g d)"
  by (simp add: js_then_def js_bind_def js_update_def)

lemma js_update_apply [simp]: "js_update g d = (Inr (), g d)"
  by (simp add: js_update_def)

lemma js_throw_apply [simp]: "js_throw e d = (Inl e, d)"
  by (simp add: js_throw_def)

lemma js_return_apply [simp]: "js_return x d = (Inr x, d)"
  by (simp add: js_return_def)

lemma js_bind_fetch [simp]:
  "js_bind (js_fetch net r) f d = f (net r) (d\<lparr>fetched := fetched d @ [r]\<rparr>)"
  by (simp add: js_bind_def js_fetch_def)

lemma keeps_return: "keeps part (js_return x)"
  by (simp add: keeps_def)

lemma keeps_throw: "keeps part (js_throw e)"
  by (simp add: keeps_def)

lemma keeps_Pair [simp]: "keeps part (Pair r)"
  by (simp add: keeps_def)

lemma keeps_lift: "keeps part (js_lift r)"
  by (simp add: keeps_def js_lift_def)

lemma keeps_update: "(\<And>d. part (g d) = part d) \<Longrightarrow> keeps part (js_update g)"
  by (simp add: keeps_def)

lemma keeps_bind:
  assumes "keeps part m" and "\<And>x. keeps part (k x)"
  shows "keeps part (js_bind m k)"
proof -
  have "part (snd (js_bind m k d)) = part d" for d
  proof (cases "m d")
    case (Pair r d')
    with assms(1) have d': "part d' = part d"
      by (metis keeps_def snd_conv)
    show ?thesis
    proof (cases r)
      case (Inl e)
      with Pair d' show ?thesis by (simp add: js_bind_def)
    next
      case (Inr x)
      from assms(2) have "part (snd (k x d')) = part d'"
        by (simp add: keeps_def)
      with Pair Inr d' show ?thesis by (simp add: js_bind_def)
    qed
  qed
  then show ?thesis by (simp add: keeps_def)
qed

lemma keeps_then: "keeps part m \<Longrightarrow> keeps part k \<Longrightarrow> keeps part (js_then m k)"
  by (simp add: js_then_def keeps_bind)

lemmas keeps_intros = keeps_bind keeps_then keeps_lift keeps_update keeps_return keeps_throw

lemma displayResults_frontend_keeps_fetched: "keeps fetched (displayResults_frontend b data t)"
  unfolding displayResults_frontend_def Let_def by (intro keeps_intros) simp_all

lemma displayResults_part000_keeps_fetched: "keeps fetched (displayResults_part000 b data t)"
  unfolding displayResults_part000_def Let_def by (intro keeps_intros) simp_all

lemma displayResults_part001_keeps_fetched: "keeps fetched (displayResults_part001 b data)"
  unfolding displayResults_part001_def Let_def by (intro keeps_intros) simp_all

lemma try_predict_fetched:
  assumes "\<And>result t. keeps fetched (display result t)"
  shows "fetched (snd (try_predict b net fd display d)) =
           fetched d @ [predict_request (API_BASE_URL b) fd]"
proof -
  let ?r = "predict_request (API_BASE_URL b) fd"
  let ?d = "d\<lparr>fetched := fetched d @ [?r]\<rparr>"
  have "keeps fetched (case net ?r of
         FetchRejects m \<Rightarrow> js_throw (FetchFailed m)
       | FetchResponse status json \<Rightarrow>
           if \<not> response_ok status then
             (let errorData = (case json of None \<Rightarrow> JObj [] | Some v \<Rightarrow> v) in
              js_bind (js_lift (get_prop errorData ''detail'')) (\<lambda>detail.
              js_throw (Error (to_string b
                (js_or detail (JStr (''Server error: '' @ numberToString b (of_nat status))))))))
           else
             (case json of
                None \<Rightarrow> js_throw SyntaxError
              | Some result \<Rightarrow>
                  js_bind (js_lift (get_prop fd ''target_date'')) (\<lambda>target.
                  display result target)))" (is "keeps fetched ?rest")
    by (auto simp: Let_def intro!: keeps_intros assms split: fetch_result.split option.split)
  then have "fetched (snd (?rest ?d)) = fetched ?d"
    by (simp add: keeps_def)
  then show ?thesis
    by (simp add: try_predict_def)
qed

lemma setLoadingState_fetched [simp]: "fetched (setLoadingState l d) = fetched d"
  by (simp add: setLoadingState_def)

lemma hideResults_fetched [simp]: "fetched (hideResults d) = fetched d"
  by (simp add: hideResults_def)

lemma showError_fetched [simp]: "fetched (showError m d) = fetched d"
  by (simp add: showError_def)

lemma formData_inputs_only:
  "targetDate_value d' = targetDate_value d \<Longrightarrow> pressure_value d' = pressure_value d \<Longrightarrow>
   humidity_value d' = humidity_value d \<Longrightarrow> wind_value d' = wind_value d \<Longrightarrow>
   precipitation_value d' = precipitation_value d \<Longrightarrow> formData b d' = formData b d"
  by (simp add: formData_def)

lemma JSON_stringify_number: "JSON_stringify (JNum n) = Some (json_number n)"
  by (cases n) (simp_all add: json_number_def is_finite_def)

lemma handlePrediction_frontend_fetched:
  "fetched (handlePrediction_frontend b net d) =
     fetched d @ [predict_request (API_BASE_URL b) (formData_frontend b d)]"
proof -
  obtain r d2 where run: "try_predict b net (formData_frontend b d) (displayResults_frontend b)
      (hideResults (setLoadingState True d)) = (r, d2)"
    by (cases "try_predict b net (formData_frontend b d) (displayResults_frontend b)
      (hideResults (setLoadingState True d))")
  have "fetched d2 = fetched d @ [predict_request (API_BASE_URL b) (formData_frontend b d)]"
    using try_predict_fetched [of "displayResults_frontend b" b net "formData_frontend b d"
        "hideResults (setLoadingState True d)"] run
    by (simp add: displayResults_frontend_keeps_fetched)
  then show ?thesis
    by (simp add: handlePrediction_frontend_def Let_def run split: sum.split)
qed

lemma handlePrediction_part000_fetched:
  "fetched (handlePrediction_part000 b net d) =
     fetched d @ [predict_request (API_BASE_URL b) (formData b d)]"
proof -
  obtain r d2 where run: "try_predict b net (formData b d) (displayResults_part000 b)
      (hideResults (setLoadingState True d)) = (r, d2)"
    by (cases "try_predict b net (formData b d) (displayResults_part000 b)
      (hideResults (setLoadingState True d))")
  have "fetched d2 = fetched d @ [predict_request (API_BASE_URL b) (formData b d)]"
    using try_predict_fetched [of "displayResults_part000 b" b net "formData b d"
        "hideResults (setLoadingState True d)"] run
    by (simp add: displayResults_part000_keeps_fetched)
  then show ?thesis
    by (simp add: handlePrediction_part000_def Let_def run split: sum.split)
qed

lemma try_predict_part001_fetched:
  "fetched (snd (try_predict_part001 b net fd d)) =
     fetched d @ [predict_request API_BASE_URL_part001 fd]"
proof -
  let ?r = "predict_request API_BASE_URL_part001 fd"
  let ?d = "d\<lparr>fetched := fetched d @ [?r]\<rparr>"
  have "keeps fetched (case net ?r of
         FetchRejects m \<Rightarrow> js_throw (FetchFailed m)
       | FetchResponse status json \<Rightarrow>
           if \<not> response_ok status then
             (case json of
                None \<Rightarrow> js_throw SyntaxError
              | Some errorData \<Rightarrow>
                  js_bind (js_lift (get_prop errorData ''detail'')) (\<lambda>detail.
                  js_throw (Error (to_string b (js_or detail (JStr ''Prediction failed''))))))
           else
             (case json of
                None \<Rightarrow> js_throw SyntaxError
              | Some result \<Rightarrow> displayResults_part001 b result))" (is "keeps fetched ?rest")
    by (auto intro!: keeps_intros displayResults_part001_keeps_fetched
        split: fetch_result.split option.split)
  then have "fetched (snd (?rest ?d)) = fetched ?d"
    by (simp add: keeps_def)
  then show ?thesis
    by (simp add: try_predict_part001_def)
qed

lemma handlePrediction_part001_fetched:
  "fetched (handlePrediction_part001 b net d) =
     fetched d @ [predict_request API_BASE_URL_part001 (formData b d)]"
proof -
  let ?d1 = "d\<lparr>submitBtn_disabled := True, btnText_display := ''none'',
                 btnLoader_display := ''inline-flex'', resultCard_display := ''none''\<rparr>"
  have fd: "formData b ?d1 = formData b d"
    by (rule formData_inputs_only) simp_all
  obtain r d2 where run: "try_predict_part001 b net (formData b d) ?d1 = (r, d2)"
    by (cases "try_predict_part001 b net (formData b d) ?d1")
  have "fetched d2 = fetched d @ [predict_request API_BASE_URL_part001 (formData b d)]"
    using try_predict_part001_fetched [of b net "formData b d" ?d1] run by simp
  then show ?thesis
    by (simp add: handlePrediction_part001_def Let_def fd run split: sum.split)
qed

lemma formData_frontend_body:
  "predict_request base (formData_frontend b d) =
     \<lparr>req_url = base @ ''/predict_temperature/'', req_method = ''POST'',
      req_content_type = ''application/json'',
      req_body = Some (JObj
        [(''target_date'', JStr (targetDate_value d)),
         (''pressure_millibars'', json_number (parseFloat b (pressure_value d))),
         (''humidity'', json_number (parseFloat b (humidity_value d))),
         (''wind_speed_kmh'', json_number (parseFloat b (wind_value d))),
         (''precip_mm'', json_number (parseFloat b (precipitation_value d)))])\<rparr>"
  by (simp add: predict_request_def formData_frontend_def JSON_stringify_number)

text \<open>
  Claim C1. Whatever the fetch does, a call of \<^verbatim>\<open>handlePrediction\<close> of
  \<^verbatim>\<open>part_000\<close> or \<^verbatim>\<open>part_001\<close> passes exactly one request to \<^verbatim>\<open>fetch\<close>: a POST to
  \<^verbatim>\<open>/predict_temperature/\<close> whose JSON body has exactly the keys \<^verbatim>\<open>target_date\<close>,
  \<^verbatim>\<open>pressure_mean\<close>, \<^verbatim>\<open>humidity_mean\<close>, \<^verbatim>\<open>wind_mean\<close> and \<^verbatim>\<open>precip_mean\<close>, in
  this order. \<^verbatim>\<open>target_date\<close> is the string value of the date input; each of the other
  four is \<^verbatim>\<open>parseFloat\<close> of its input when that number is finite, and \<^verbatim>\<open>null\<close> when
  it is not.
\<close>

theorem form_submission_body:
  "fetched (handlePrediction_part000 b net d) =
     fetched d @ [predict_request (API_BASE_URL b) (formData b d)] \<and>
   fetched (handlePrediction_part001 b net d) =
     fetched d @ [predict_request API_BASE_URL_part001 (formData b d)] \<and>
   predict_request base (formData b d) =
     \<lparr>req_url = base @ ''/predict_temperature/'', req_method = ''POST'',
      req_content_type = ''application/json'',
      req_body = Some (JObj
        [(''target_date'', JStr (targetDate_value d)),
         (''pressure_mean'', json_number (parseFloat b (pressure_value d))),
         (''humidity_mean'', json_number (parseFloat b (humidity_value d))),
         (''wind_mean'', json_number (parseFloat b (wind_value d))),
         (''precip_mean'', json_number (parseFloat b (precipitation_value d)))])\<rparr>"
  by (simp add: handlePrediction_part000_fetched handlePrediction_part001_fetched
      predict_request_def formData_def JSON_stringify_number)

lemma example_page_parses:
  "parseFloat example_browser (pressure_value example_page) = Fin 1015.2"
  "parseFloat example_browser (humidity_value example_page) = Fin 68"
  "parseFloat example_browser (wind_value example_page) = Fin 15.5"
  "parseFloat example_browser (precipitation_value example_page) = Fin 1.2"
  by code_simp+

theorem form_submission_body_witness:
  "fetched (handlePrediction_part000 example_browser offline example_page) =
     [\<lparr>req_url = ''http://localhost:8000/predict_temperature/'', req_method = ''POST'',
       req_content_type = ''application/json'',
       req_body = Some (JObj
         [(''target_date'', JStr ''2024-12-25''), (''pressure_mean'', JNum (Fin 1015.2)),
          (''humidity_mean'', JNum (Fin 68)), (''wind_mean'', JNum (Fin 15.5)),
          (''precip_mean'', JNum (Fin 1.2))])\<rparr>]"
proof -
  have base: "API_BASE_URL example_browser = ''http://localhost:8000''"
    by (simp add: API_BASE_URL_def example_browser_def)
  have page: "fetched example_page = []" "targetDate_value example_page = ''2024-12-25''"
    by (simp_all add: example_page_def)
  show ?thesis
    using form_submission_body [of example_browser offline example_page
        "API_BASE_URL example_browser"]
    by (simp add: base page example_page_parses json_number_def is_finite_def)
qed

lemma blank_pressure_parse: "parseFloat example_browser (pressure_value blank_pressure_page) = NaN"
  by code_simp

text \<open>
  With the pressure field empty, \<^verbatim>\<open>parseFloat\<close> gives NaN and the body sent does not
  hold the parsed values: it holds \<^verbatim>\<open>null\<close> for \<^verbatim>\<open>pressure_mean\<close>.
\<close>

theorem blank_field_sent_as_null:
  "parseFloat example_browser (pressure_value blank_pressure_page) = NaN \<and>
   map req_body (fetched (handlePrediction_part000 example_browser offline
      blank_pressure_page)) =
     [Some (JObj
        [(''target_date'', JStr ''2024-12-25''), (''pressure_mean'', JNull),
         (''humidity_mean'', JNum (Fin 68)), (''wind_mean'', JNum (Fin 15.5)),
         (''precip_mean'', JNum (Fin 1.2))])] \<and>
   map req_body (fetched (handlePrediction_part000 example_browser offline
      blank_pressure_page)) \<noteq>
     [Some (JObj
        [(''target_date'', JStr (targetDate_value blank_pressure_page)),
         (''pressure_mean'', JNum (parseFloat example_browser (pressure_value blank_pressure_page))),
         (''humidity_mean'', JNum (parseFloat example_browser (humidity_value blank_pressure_page))),
         (''wind_mean'', JNum (parseFloat example_browser (wind_value blank_pressure_page))),
         (''precip_mean'',
            JNum (parseFloat example_browser (precipitation_value blank_pressure_page)))])]"
proof -
  have fields: "targetDate_value blank_pressure_page = ''2024-12-25''"
    "fetched blank_pressure_page = []"
    "humidity_value blank_pressure_page = humidity_value example_page"
    "wind_value blank_pressure_page = wind_value example_page"
    "precipitation_value blank_pressure_page = precipitation_value example_page"
    by (simp_all add: blank_pressure_page_def example_page_def)
  show ?thesis
    by (simp add: handlePrediction_part000_fetched predict_request_def formData_def
        blank_pressure_parse fields example_page_parses)
qed

subsection \<open>displayResults\<close>

lemma position_equal_bounds:
  "position b (JNum (Fin x)) (JNum (Fin l)) (JNum (Fin l)) =
     (if x = l then NaN else if l < x then PosInf else NegInf)"
  by (simp add: position_def)

lemma conformsD:
  assumes "conforms data date x used lo hi level version"
  obtains ci where
    "get_prop data ''date'' = Inr (JStr date)"
    "get_prop data ''predicted_global_temperature_celsius'' = Inr (JNum (Fin x))"
    "get_prop data ''model_used'' = Inr (JStr used)"
    "get_prop data ''confidence_interval'' = Inr ci"
    "get_prop ci ''lower_bound'' = Inr (JNum (Fin lo))"
    "get_prop ci ''upper_bound'' = Inr (JNum (Fin hi))"
    "get_prop data ''model_version'' = Inr (JStr version)"
  using assms by (auto simp: conforms_def split: sum.splits)

lemma displayResults_part000_conforming:
  assumes "conforms data date x used lo hi level version"
  shows "displayResults_part000 b data t d =
     (Inr (), d\<lparr>resultCard_display := ''block'',
                 tempValue := numberToFixed b x 2,
                 resultDate := ''for '' @ localeDate b t,
                 confidenceLow := numberToFixed b lo 2 @ degC,
                 confidenceHigh := numberToFixed b hi 2 @ degC,
                 rangeFill_width :=
                   num_to_string b (position b (JNum (Fin x)) (JNum (Fin lo)) (JNum (Fin hi))) @ ''%'',
                 rangeMarker_left :=
                   num_to_string b (position b (JNum (Fin x)) (JNum (Fin lo)) (JNum (Fin hi))) @ ''%'',
                 modelUsed := used,
                 modelVersion := (if version = [] then ''1.0'' else version)\<rparr>)"
proof -
  from assms obtain ci where
    "get_prop data ''predicted_global_temperature_celsius'' = Inr (JNum (Fin x))"
    "get_prop data ''model_used'' = Inr (JStr used)"
    "get_prop data ''confidence_interval'' = Inr ci"
    "get_prop ci ''lower_bound'' = Inr (JNum (Fin lo))"
    "get_prop ci ''upper_bound'' = Inr (JNum (Fin hi))"
    "get_prop data ''model_version'' = Inr (JStr version)"
    by (rule conformsD)
  then show ?thesis
    unfolding displayResults_part000_def Let_def
    by (simp add: text_content_def js_or_def)
qed

lemma displayResults_part001_conforming:
  assumes "conforms data date x used lo hi level version"
  shows "displayResults_part001 b data d =
     (Inr (), d\<lparr>tempValue := numberToFixed b x 1,
                 resultDate := ''for '' @ localeDate b (JStr date),
                 confidenceLow := numberToString b lo @ degC,
                 confidenceHigh := numberToString b hi @ degC,
                 rangeMarker_left := ''calc('' @
                   num_to_string b (position b (JNum (Fin x)) (JNum (Fin lo)) (JNum (Fin hi))) @
                   ''% - 2px)'',
                 modelUsed := used,
                 modelVersion := version,
                 resultCard_display := ''block''\<rparr>)"
proof -
  from assms obtain ci where
    "get_prop data ''date'' = Inr (JStr date)"
    "get_prop data ''predicted_global_temperature_celsius'' = Inr (JNum (Fin x))"
    "get_prop data ''model_used'' = Inr (JStr used)"
    "get_prop data ''confidence_interval'' = Inr ci"
    "get_prop ci ''lower_bound'' = Inr (JNum (Fin lo))"
    "get_prop ci ''upper_bound'' = Inr (JNum (Fin hi))"
    "get_prop data ''model_version'' = Inr (JStr version)"
    by (rule conformsD)
  then show ?thesis
    unfolding displayResults_part001_def Let_def
    by (simp add: text_content_def)
qed

lemma readme_response_conforms:
  "conforms readme_response ''2024-12-25'' 15.23
     ''Ensemble Stacking Regressor (XGBoost + RidgeCV)'' 13.23 17.23 ''~95%'' ''1.0''"
  by (simp add: conforms_def readme_response_def)

lemma collapsed_response_conforms:
  "conforms (collapsed_response x l) ''2024-12-25'' x
     ''Ensemble Stacking Regressor (XGBoost + RidgeCV)'' l l ''~95%'' ''1.0''"
  by (simp add: conforms_def collapsed_response_def)

lemma displayResults_frontend_readme:
  "displayResults_frontend b readme_response t d =
     (Inl TypeError, d\<lparr>resultCard_display := ''block''\<rparr>)"
  unfolding displayResults_frontend_def Let_def
  by (simp add: readme_response_def object_prototype_keys_def)

text \<open>
  Claim C2, on the README's sample response, which conforms to the HTTP contract:
  \<^verbatim>\<open>displayResults\<close> of \<^verbatim>\<open>src/frontend/script.js\<close> reads
  \<^verbatim>\<open>data.predicted_temperature\<close>, which the response does not have, and throws a
  TypeError on \<^verbatim>\<open>toFixed\<close>, having shown the result card and displayed nothing of the
  response.
\<close>

theorem displayResults_frontend_rejects_contract:
  "conforms readme_response ''2024-12-25'' 15.23
     ''Ensemble Stacking Regressor (XGBoost + RidgeCV)'' 13.23 17.23 ''~95%'' ''1.0'' \<and>
   displayResults_frontend example_browser readme_response (JStr ''2024-12-25'') example_page =
     (Inl TypeError, example_page\<lparr>resultCard_display := ''block''\<rparr>)"
  by (rule conjI [OF readme_response_conforms displayResults_frontend_readme])

text \<open>
  Claim C3. No copy tests the range before dividing. For a conforming response whose
  bounds are equal, the position \<^verbatim>\<open>((prediction - lower) / (upper - lower)) * 100\<close> is
  not a finite number (NaN exactly when the prediction equals the bound, an infinity
  otherwise), and \<^verbatim>\<open>displayResults\<close> of \<^verbatim>\<open>part_000\<close> and \<^verbatim>\<open>part_001\<close> assigns its
  text to the style of the range bar.
\<close>

theorem position_without_guard:
  assumes "conforms data date x used l l level version"
  shows "\<not> is_finite (position b (JNum (Fin x)) (JNum (Fin l)) (JNum (Fin l))) \<and>
    (position b (JNum (Fin x)) (JNum (Fin l)) (JNum (Fin l)) = NaN) = (x = l) \<and>
    rangeFill_width (snd (displayResults_part000 b data t d)) \<in>
      set [''NaN%'', ''Infinity%'', ''-Infinity%''] \<and>
    rangeMarker_left (snd (displayResults_part000 b data t d)) =
      rangeFill_width (snd (displayResults_part000 b data t d)) \<and>
    rangeMarker_left (snd (displayResults_part001 b data d)) \<in>
      set [''calc(NaN% - 2px)'', ''calc(Infinity% - 2px)'', ''calc(-Infinity% - 2px)'']"
  by (simp add: displayResults_part000_conforming [OF assms]
      displayResults_part001_conforming [OF assms] position_equal_bounds is_finite_def)

theorem position_without_guard_witness:
  "conforms (collapsed_response 16 15) ''2024-12-25'' 16
     ''Ensemble Stacking Regressor (XGBoost + RidgeCV)'' 15 15 ''~95%'' ''1.0'' \<and>
   \<not> is_finite (position example_browser (JNum (Fin 16)) (JNum (Fin 15)) (JNum (Fin 15))) \<and>
   rangeFill_width (snd (displayResults_part000 example_browser (collapsed_response 16 15)
     (JStr ''2024-12-25'') example_page)) \<in> set [''NaN%'', ''Infinity%'', ''-Infinity%''] \<and>
   rangeMarker_left (snd (displayResults_part001 example_browser (collapsed_response 16 15)
     example_page)) \<in>
     set [''calc(NaN% - 2px)'', ''calc(Infinity% - 2px)'', ''calc(-Infinity% - 2px)'']"
  using position_without_guard [OF collapsed_response_conforms,
      where x = 16 and l = 15 and b = example_browser and t = "JStr ''2024-12-25''"
        and d = example_page]
    collapsed_response_conforms [of 16 15]
  by simp

text \<open>With prediction and both bounds at 15 the style is assigned the text of NaN.\<close>

theorem division_by_zero_reaches_style:
  "rangeFill_width (snd (displayResults_part000 example_browser (collapsed_response 15 15)
     (JStr ''2024-12-25'') example_page)) = ''NaN%'' \<and>
   rangeMarker_left (snd (displayResults_part001 example_browser (collapsed_response 15 15)
     example_page)) = ''calc(NaN% - 2px)''"
  by (simp add: displayResults_part000_conforming [OF collapsed_response_conforms]
      displayResults_part001_conforming [OF collapsed_response_conforms] position_equal_bounds)

subsection \<open>handlePrediction\<close>

lemma try_predict_no_result:
  assumes "no_result (net (predict_request (API_BASE_URL b) fd))"
  shows "\<exists>e. try_predict b net fd display d =
           (Inl e, d\<lparr>fetched := fetched d @ [predict_request (API_BASE_URL b) fd]\<rparr>)"
proof (cases "net (predict_request (API_BASE_URL b) fd)")
  case (FetchRejects m)
  then show ?thesis by (simp add: try_predict_def)
next
  case (FetchResponse status json)
  show ?thesis
  proof (cases "response_ok status")
    case True
    with assms FetchResponse have "json = None" by (simp add: no_result_def)
    with True FetchResponse show ?thesis by (simp add: try_predict_def)
  next
    case False
    then show ?thesis
      using FetchResponse
      by (cases "get_prop (case json of None \<Rightarrow> JObj [] | Some v \<Rightarrow> v) ''detail''")
        (simp_all add: try_predict_def Let_def)
  qed
qed

lemma try_predict_part001_no_result:
  assumes "no_result (net (predict_request API_BASE_URL_part001 fd))"
  shows "\<exists>e. try_predict_part001 b net fd d =
           (Inl e, d\<lparr>fetched := fetched d @ [predict_request API_BASE_URL_part001 fd]\<rparr>)"
proof (cases "net (predict_request API_BASE_URL_part001 fd)")
  case (FetchRejects m)
  then show ?thesis by (simp add: try_predict_part001_def)
next
  case (FetchResponse status json)
  show ?thesis
  proof (cases json)
    case None
    with FetchResponse show ?thesis by (simp add: try_predict_part001_def)
  next
    case (Some v)
    with assms FetchResponse have "\<not> response_ok status" by (simp add: no_result_def)
    with Some FetchResponse show ?thesis
      by (cases "get_prop v ''detail''") (simp_all add: try_predict_part001_def)
  qed
qed

lemma handlePrediction_frontend_ready: "ready_for_input (handlePrediction_frontend b net d)"
  by (simp add: handlePrediction_frontend_def Let_def ready_for_input_def setLoadingState_def
      split: prod.split)

lemma handlePrediction_part000_ready: "ready_for_input (handlePrediction_part000 b net d)"
  by (simp add: handlePrediction_part000_def Let_def ready_for_input_def setLoadingState_def
      split: prod.split)

lemma handlePrediction_part001_ready: "ready_for_input (handlePrediction_part001 b net d)"
  by (simp add: handlePrediction_part001_def Let_def ready_for_input_def split: prod.split)

lemma handlePrediction_frontend_no_result:
  assumes "no_result (net (predict_request (API_BASE_URL b) (formData_frontend b d)))"
  shows "card_hidden (handlePrediction_frontend b net d) \<and>
    length (errorAlerts (handlePrediction_frontend b net d)) = Suc (length (errorAlerts d))"
proof -
  from try_predict_no_result [where net = net and b = b and fd = "formData_frontend b d", OF assms]
  obtain e where
    "try_predict b net (formData_frontend b d) (displayResults_frontend b)
       (hideResults (setLoadingState True d)) =
     (Inl e, (hideResults (setLoadingState True d))\<lparr>fetched :=
        fetched (hideResults (setLoadingState True d)) @
          [predict_request (API_BASE_URL b) (formData_frontend b d)]\<rparr>)"
    by blast
  then show ?thesis
    by (simp add: handlePrediction_frontend_def Let_def card_hidden_def setLoadingState_def
        hideResults_def showError_def)
qed

lemma handlePrediction_part000_no_result:
  assumes "no_result (net (predict_request (API_BASE_URL b) (formData b d)))"
  shows "card_hidden (handlePrediction_part000 b net d) \<and>
    length (errorAlerts (handlePrediction_part000 b net d)) = Suc (length (errorAlerts d))"
proof -
  from try_predict_no_result [where net = net and b = b and fd = "formData b d", OF assms]
  obtain e where
    "try_predict b net (formData b d) (displayResults_part000 b)
       (hideResults (setLoadingState True d)) =
     (Inl e, (hideResults (setLoadingState True d))\<lparr>fetched :=
        fetched (hideResults (setLoadingState True d)) @
          [predict_request (API_BASE_URL b) (formData b d)]\<rparr>)"
    by blast
  then show ?thesis
    by (simp add: handlePrediction_part000_def Let_def card_hidden_def setLoadingState_def
        hideResults_def showError_def)
qed

lemma handlePrediction_part001_no_result:
  assumes "no_result (net (predict_request API_BASE_URL_part001 (formData b d)))"
  shows "card_hidden (handlePrediction_part001 b net d) \<and>
    length (alerts (handlePrediction_part001 b net d)) = Suc (length (alerts d))"
proof -
  let ?d1 = "d\<lparr>submitBtn_disabled := True, btnText_display := ''none'',
                 btnLoader_display := ''inline-flex'', resultCard_display := ''none''\<rparr>"
  have fd: "formData b ?d1 = formData b d"
    by (rule formData_inputs_only) simp_all
  from try_predict_part001_no_result [where net = net and fd = "formData b d", OF assms]
  obtain e where
    "try_predict_part001 b net (formData b d) ?d1 =
     (Inl e, ?d1\<lparr>fetched := fetched ?d1 @
        [predict_request API_BASE_URL_part001 (formData b d)]\<rparr>)"
    by blast
  then show ?thesis
    by (simp add: handlePrediction_part001_def Let_def card_hidden_def fd)
qed

text \<open>
  Claim C9. In each copy, whatever the fetch does, the submit button is
  enabled and the loader hidden when \<^verbatim>\<open>handlePrediction\<close> completes. When the fetch
  rejects, the status is not ok or the body of the response cannot be read, the result
  card is hidden at completion and one error message has been shown.
\<close>

theorem handlePrediction_completes:
  "ready_for_input (handlePrediction_frontend b net d) \<and>
   ready_for_input (handlePrediction_part000 b net d) \<and>
   ready_for_input (handlePrediction_part001 b net d) \<and>
   (no_result (net (predict_request (API_BASE_URL b) (formData_frontend b d))) \<longrightarrow>
      card_hidden (handlePrediction_frontend b net d) \<and>
      length (errorAlerts (handlePrediction_frontend b net d)) = Suc (length (errorAlerts d))) \<and>
   (no_result (net (predict_request (API_BASE_URL b) (formData b d))) \<longrightarrow>
      card_hidden (handlePrediction_part000 b net d) \<and>
      length (errorAlerts (handlePrediction_part000 b net d)) = Suc (length (errorAlerts d))) \<and>
   (no_result (net (predict_request API_BASE_URL_part001 (formData b d))) \<longrightarrow>
      card_hidden (handlePrediction_part001 b net d) \<and>
      length (alerts (handlePrediction_part001 b net d)) = Suc (length (alerts d)))"
  using handlePrediction_frontend_ready handlePrediction_part000_ready
    handlePrediction_part001_ready handlePrediction_frontend_no_result
    handlePrediction_part000_no_result handlePrediction_part001_no_result
  by blast

theorem handlePrediction_completes_witness:
  "no_result (rejecting (predict_request (API_BASE_URL example_browser)
     (formData_frontend example_browser shown_page))) \<and>
   ready_for_input (handlePrediction_frontend example_browser rejecting shown_page) \<and>
   card_hidden (handlePrediction_frontend example_browser rejecting shown_page) \<and>
   card_hidden (handlePrediction_part000 example_browser rejecting shown_page) \<and>
   card_hidden (handlePrediction_part001 example_browser rejecting shown_page) \<and>
   length (alerts (handlePrediction_part001 example_browser rejecting shown_page)) = 1"
proof -
  have no: "no_result (rejecting r)" for r
    by (simp add: no_result_def response_ok_def rejecting_def)
  have page: "alerts shown_page = []"
    by (simp add: shown_page_def example_page_def)
  show ?thesis
    using handlePrediction_completes [of example_browser rejecting shown_page] no
    by (simp add: page)
qed

text \<open>
  The state before the submission is not restored when the fetch fails: a result card
  that was showing is hidden, and an error message is added.
\<close>

theorem failed_fetch_hides_earlier_result:
  "resultCard_display shown_page = ''block'' \<and>
   errorAlerts shown_page = [] \<and>
   resultCard_display (handlePrediction_part000 example_browser offline shown_page) = ''none'' \<and>
   errorAlerts (handlePrediction_part000 example_browser offline shown_page) =
     [''Failed to fetch'']"
  by (simp add: handlePrediction_part000_def Let_def try_predict_def setLoadingState_def
      hideResults_def showError_def shown_page_def example_page_def offline_def)

text \<open>The card shows when \<^verbatim>\<open>displayResults\<close> throws after its first statement.\<close>

lemma handlePrediction_frontend_readme:
  "resultCard_display (handlePrediction_frontend b (\<lambda>r. FetchResponse 200 (Some readme_response)) d)
     = ''block'' \<and>
   errorAlerts (handlePrediction_frontend b (\<lambda>r. FetchResponse 200 (Some readme_response)) d)
     = errorAlerts d @ [engineMessage b TypeError]"
  by (simp add: handlePrediction_frontend_def Let_def try_predict_def response_ok_def
      formData_frontend_def displayResults_frontend_readme
      setLoadingState_def hideResults_def showError_def)

lemma handlePrediction_part000_empty_body:
  "resultCard_display (handlePrediction_part000 b (\<lambda>r. FetchResponse 200 (Some (JObj []))) d)
     = ''block'' \<and>
   errorAlerts (handlePrediction_part000 b (\<lambda>r. FetchResponse 200 (Some (JObj []))) d)
     = errorAlerts d @ [engineMessage b TypeError]"
  by (simp add: handlePrediction_part000_def Let_def try_predict_def response_ok_def
      formData_def displayResults_part000_def object_prototype_keys_def
      setLoadingState_def hideResults_def showError_def)

lemma handlePrediction_part001_empty_body:
  "resultCard_display (handlePrediction_part001 b (\<lambda>r. FetchResponse 200 (Some (JObj []))) d)
     = ''none''"
  by (simp add: handlePrediction_part001_def Let_def try_predict_part001_def response_ok_def
      formData_def displayResults_part001_def object_prototype_keys_def)

subsection \<open>loadPreset\<close>

lemma assign_preset_numbers:
  "assign_preset b (preset_of p h w r) d = (Inr (), filled b p h w r d)"
  by (simp add: assign_preset_def preset_of_def input_value_def filled_def)

lemma assign_preset_keeps_date: "keeps targetDate_value (assign_preset b preset)"
  unfolding assign_preset_def by (intro keeps_intros) simp_all

lemma presets_other:
  assumes "type \<notin> set [''sunny'', ''storm'', ''average'']"
    and "type \<notin> set object_prototype_keys"
  shows "get_prop presets type = Inr JUndefined"
    and "get_prop presets_part001 type = Inr JUndefined"
  using assms by (simp_all add: presets_def presets_part001_def)

lemma loadPreset_other:
  assumes "type \<notin> set [''sunny'', ''storm'', ''average'']"
    and "type \<notin> set object_prototype_keys"
  shows "loadPreset_frontend b type d = (Inr (), d)"
    and "loadPreset_part000 b type d = (Inr (), d)"
    and "loadPreset_part001 b type d = (Inr (), d)"
  by (simp_all add: loadPreset_frontend_def loadPreset_part000_def loadPreset_part001_def
      presets_other [OF assms])

lemma loadPreset_known:
  "loadPreset_frontend b ''sunny'' d = (Inr (), filled b 1020 45 8 0 d)"
  "loadPreset_frontend b ''storm'' d = (Inr (), filled b 990 85 45 25 d)"
  "loadPreset_frontend b ''average'' d = (Inr (), filled b 1013.25 60 15 2.5 d)"
  "loadPreset_part000 b ''sunny'' d = (Inr (), filled b 1020 45 8 0 d)"
  "loadPreset_part000 b ''storm'' d = (Inr (), filled b 990 85 45 25 d)"
  "loadPreset_part000 b ''average'' d = (Inr (), filled b 1013.25 60 15 2.5 d)"
  "loadPreset_part001 b ''sunny'' d = (Inr (), filled b 1025 45 8 0 d)"
  "loadPreset_part001 b ''storm'' d = (Inr (), filled b 995 85 35 15 d)"
  "loadPreset_part001 b ''average'' d = (Inr (), filled b 1013.25 60 12 2 d)"
  by (simp_all add: loadPreset_frontend_def loadPreset_part000_def loadPreset_part001_def
      presets_def presets_part001_def assign_preset_numbers [symmetric])
    (simp_all add: preset_of_def)

lemma loadPreset_keeps_date:
  "keeps targetDate_value (loadPreset_frontend b type)"
  "keeps targetDate_value (loadPreset_part000 b type)"
  "keeps targetDate_value (loadPreset_part001 b type)"
  unfolding loadPreset_frontend_def loadPreset_part000_def loadPreset_part001_def
  by (auto intro!: keeps_intros assign_preset_keeps_date)

text \<open>
  Claim C10. In each copy, \<^verbatim>\<open>loadPreset\<close> with a name that is neither a
  preset name nor the name of a property inherited from \<^verbatim>\<open>Object.prototype\<close> leaves the
  page as it is; with \<^verbatim>\<open>sunny\<close>, \<^verbatim>\<open>storm\<close> or \<^verbatim>\<open>average\<close> it assigns the text of the
  preset's numbers to the four fields pressure, humidity, wind and precipitation and
  nothing else; and with any name it leaves the target date as it is.
\<close>

theorem loadPreset_frame:
  "(type \<notin> set [''sunny'', ''storm'', ''average''] \<and> type \<notin> set object_prototype_keys \<longrightarrow>
      snd (loadPreset_frontend b type d) = d \<and>
      snd (loadPreset_part000 b type d) = d \<and>
      snd (loadPreset_part001 b type d) = d) \<and>
   snd (loadPreset_frontend b ''sunny'' d) = filled b 1020 45 8 0 d \<and>
   snd (loadPreset_frontend b ''storm'' d) = filled b 990 85 45 25 d \<and>
   snd (loadPreset_frontend b ''average'' d) = filled b 1013.25 60 15 2.5 d \<and>
   snd (loadPreset_part000 b ''sunny'' d) = filled b 1020 45 8 0 d \<and>
   snd (loadPreset_part000 b ''storm'' d) = filled b 990 85 45 25 d \<and>
   snd (loadPreset_part000 b ''average'' d) = filled b 1013.25 60 15 2.5 d \<and>
   snd (loadPreset_part001 b ''sunny'' d) = filled b 1025 45 8 0 d \<and>
   snd (loadPreset_part001 b ''storm'' d) = filled b 995 85 35 15 d \<and>
   snd (loadPreset_part001 b ''average'' d) = filled b 1013.25 60 12 2 d \<and>
   targetDate_value (snd (loadPreset_frontend b type d)) = targetDate_value d \<and>
   targetDate_value (snd (loadPreset_part000 b type d)) = targetDate_value d \<and>
   targetDate_value (snd (loadPreset_part001 b type d)) = targetDate_value d"
proof -
  have "targetDate_value (snd (loadPreset_frontend b type d)) = targetDate_value d"
    "targetDate_value (snd (loadPreset_part000 b type d)) = targetDate_value d"
    "targetDate_value (snd (loadPreset_part001 b type d)) = targetDate_value d"
    using loadPreset_keeps_date [of b type] by (simp_all add: keeps_def)
  then show ?thesis
    using loadPreset_other [of type] by (simp add: loadPreset_known)
qed

theorem loadPreset_frame_witness:
  "''rainy'' \<notin> set [''sunny'', ''storm'', ''average''] \<and>
   ''rainy'' \<notin> set object_prototype_keys \<and>
   snd (loadPreset_frontend example_browser ''rainy'' example_page) = example_page \<and>
   snd (loadPreset_part000 example_browser ''rainy'' example_page) = example_page \<and>
   snd (loadPreset_part001 example_browser ''rainy'' example_page) = example_page \<and>
   snd (loadPreset_part001 example_browser ''average'' example_page) =
     example_page\<lparr>pressure_value := ''1013.25'', humidity_value := ''60'',
       wind_value := ''12'', precipitation_value := ''2''\<rparr>"
proof -
  have other: "''rainy'' \<notin> set [''sunny'', ''storm'', ''average'']"
    "''rainy'' \<notin> set object_prototype_keys"
    by (simp_all add: object_prototype_keys_def)
  have texts: "numberToString example_browser 1013.25 = ''1013.25''"
    "numberToString example_browser 60 = ''60''"
    "numberToString example_browser 12 = ''12''"
    "numberToString example_browser 2 = ''2''"
    by code_simp+
  have "filled example_browser 1013.25 60 12 2 example_page =
      example_page\<lparr>pressure_value := ''1013.25'', humidity_value := ''60'',
        wind_value := ''12'', precipitation_value := ''2''\<rparr>"
    unfolding filled_def texts ..
  then show ?thesis
    using loadPreset_frame [of "''rainy''" example_browser example_page] other
    by simp
qed

text \<open>
  \<^verbatim>\<open>presets['constructor']\<close> is the inherited \<^verbatim>\<open>Object\<close> function, which is truthy:
  in each copy the four fields, which held the numbers of the example page, are
  overwritten with the text of \<^verbatim>\<open>undefined\<close>.
\<close>

theorem loadPreset_inherited_name:
  "''constructor'' \<notin> set [''sunny'', ''storm'', ''average''] \<and>
   example_page \<noteq> unfilled_page \<and>
   snd (loadPreset_frontend example_browser ''constructor'' example_page) = unfilled_page \<and>
   snd (loadPreset_part000 example_browser ''constructor'' example_page) = unfilled_page \<and>
   snd (loadPreset_part001 example_browser ''constructor'' example_page) = unfilled_page"
  by (simp add: loadPreset_frontend_def loadPreset_part000_def loadPreset_part001_def
      presets_def presets_part001_def object_prototype_keys_def assign_preset_def
      input_value_def example_page_def unfilled_page_def)

section \<open>Properties of the prediction service\<close>

lemma date_field_error: "date_field body = Inl e \<Longrightarrow> e = ValidationError ''target_date''"
  by (auto simp: date_field_def split: option.splits jsval.splits)

lemma numeric_field_error: "numeric_field body k = Inl e \<Longrightarrow> e = ValidationError k"
  by (auto simp: numeric_field_def split: option.splits jsval.splits jsnum.splits)

lemma validate_error: "validate body = Inl e \<Longrightarrow> \<exists>f. e = ValidationError f"
  unfolding validate_def
  by (auto split: sum.splits prod.splits dest: date_field_error numeric_field_error)

subsection \<open>Startup and the Feature Builder\<close>

lemma assemble_length: "assemble f ns = Some v \<Longrightarrow> length v = length ns"
  by (induction ns arbitrary: v) (auto split: option.splits)

lemma assemble_nth:
  "assemble f ns = Some v \<Longrightarrow> i < length ns \<Longrightarrow> f (ns ! i) = Some (v ! i)"
proof (induction ns arbitrary: v i)
  case Nil
  then show ?case by simp
next
  case (Cons n ns)
  then show ?case
    by (cases i) (auto split: option.splits)
qed

lemma assemble_total:
  "list_all (\<lambda>n. f n \<noteq> None) ns \<Longrightarrow> \<exists>v. assemble f ns = Some v"
  by (induction ns) (auto split: option.splits)

lemma feature_value_known:
  assumes "7 \<le> length buf" and "n \<in> set known_features"
  shows "feature_value req buf n \<noteq> None"
proof -
  from assms(2) consider "n = ''dayofyear''" | "n = ''month''" | "n = ''day''"
    | "n = ''temp_lag1''" | "n = ''temp_lag7''" | "n = ''temp_roll7''"
    | "n = ''pressure_mean''" | "n = ''humidity_mean''" | "n = ''wind_mean''"
    | "n = ''precip_mean''"
    unfolding known_features_def by fastforce
  then show ?thesis
    using assms(1) by cases (auto simp: feature_value_def)
qed

lemma startup_checks:
  assumes "startup a = Inr ctx"
  shows "7 \<le> length (ctx_buffer ctx)"
    and "list_all (\<lambda>n. n \<in> set known_features) (feature_names (ctx_metadata ctx))"
    and "length (feature_names (ctx_metadata ctx)) = feature_count (ctx_metadata ctx)"
  using assms by (auto simp: startup_def split: if_splits option.splits)

lemma startup_short_buffer:
  "historical_temps a = Some buf \<Longrightarrow> length buf < 7 \<Longrightarrow> \<exists>m. startup a = Inl (ConfigurationError m)"
  by (auto simp: startup_def split: option.splits)

lemma startup_count_mismatch:
  "feature_metadata a = Some md \<Longrightarrow> length (feature_names md) \<noteq> feature_count md \<Longrightarrow>
   \<exists>m. startup a = Inl (ConfigurationError m)"
  by (auto simp: startup_def split: option.splits)

lemma build_after_startup:
  assumes "startup a = Inr ctx"
  shows "\<exists>v. build req (ctx_buffer ctx) (ctx_metadata ctx) = Inr v \<and>
    length v = feature_count (ctx_metadata ctx) \<and>
    length v = length (feature_names (ctx_metadata ctx)) \<and>
    (\<forall>i<length v. feature_value req (ctx_buffer ctx) (feature_names (ctx_metadata ctx) ! i) =
       Some (v ! i))"
proof -
  let ?buf = "ctx_buffer ctx" and ?md = "ctx_metadata ctx"
  note checks = startup_checks [OF assms]
  have "list_all (\<lambda>n. feature_value req ?buf n \<noteq> None) (feature_names ?md)"
    using checks(1,2) feature_value_known [of ?buf _ req] by (auto simp: list_all_iff)
  then obtain v where v: "assemble (feature_value req ?buf) (feature_names ?md) = Some v"
    using assemble_total by blast
  have len: "length v = length (feature_names ?md)"
    using v by (rule assemble_length)
  have "build req ?buf ?md = Inr v"
    using checks(1,3) v len by (simp add: build_def)
  moreover have "\<forall>i<length v. feature_value req ?buf (feature_names ?md ! i) = Some (v ! i)"
    using assemble_nth [OF v] len by simp
  ultimately show ?thesis
    using len checks(3) by simp
qed

lemma request_features_no_configuration_error:
  assumes "startup a = Inr ctx"
  shows "request_features ctx body \<noteq> Inl (ConfigurationError m)"
proof (cases "validate body")
  case (Inl e)
  then obtain f where "e = ValidationError f"
    using validate_error by blast
  with Inl show ?thesis by (simp add: request_features_def)
next
  case (Inr req)
  with build_after_startup [OF assms, of req] show ?thesis
    by (auto simp: request_features_def)
qed

text \<open>
  Claim C6. With a historical buffer of fewer than seven entries startup fails with a
  \<open>ConfigurationError\<close>; a context that startup returned has at least seven entries, and
  no request served with it ends in a \<open>ConfigurationError\<close>.
\<close>

theorem short_buffer_fails_startup:
  "(historical_temps a = Some buf \<and> length buf < 7 \<longrightarrow>
      (\<exists>m. startup a = Inl (ConfigurationError m))) \<and>
   (startup a = Inr ctx \<longrightarrow>
      7 \<le> length (ctx_buffer ctx) \<and>
      (\<forall>body m. request_features ctx body \<noteq> Inl (ConfigurationError m)))"
  using startup_short_buffer [of a buf] startup_checks(1) [of a ctx]
    request_features_no_configuration_error [of a ctx]
  by blast

lemma startup_example: "startup example_artifacts = Inr example_context"
  by code_simp

lemma startup_short: "startup short_artifacts = Inl (ConfigurationError ''historical buffer'')"
  by code_simp

theorem short_buffer_fails_startup_witness:
  "historical_temps short_artifacts = Some [14, 14.5] \<and>
   length [14, 14.5 :: rat] < 7 \<and>
   (\<exists>m. startup short_artifacts = Inl (ConfigurationError m)) \<and>
   startup example_artifacts = Inr example_context \<and>
   7 \<le> length (ctx_buffer example_context) \<and>
   (\<forall>m. request_features example_context example_body \<noteq> Inl (ConfigurationError m))"
proof -
  have short: "historical_temps short_artifacts = Some [14, 14.5]"
    by (simp add: short_artifacts_def)
  from short_buffer_fails_startup [of short_artifacts "[14, 14.5]"] short
  have one: "\<exists>m. startup short_artifacts = Inl (ConfigurationError m)"
    by simp
  from short_buffer_fails_startup [of example_artifacts _ example_context] startup_example
  have two: "7 \<le> length (ctx_buffer example_context)"
    "\<forall>m. request_features example_context example_body \<noteq> Inl (ConfigurationError m)"
    by blast+
  from short one two startup_example show ?thesis by simp
qed

text \<open>
  Claim C8. When the metadata's feature count is not the number of its feature names,
  startup fails with a \<open>ConfigurationError\<close>. With a context that startup returned, every
  valid request gets a feature vector whose length is the metadata's feature count and
  whose entry at each position is the feature named at that position of the metadata's
  feature-name list.
\<close>

theorem feature_vector_matches_metadata:
  "(feature_metadata a = Some md \<and> length (feature_names md) \<noteq> feature_count md \<longrightarrow>
      (\<exists>m. startup a = Inl (ConfigurationError m))) \<and>
   (startup a = Inr ctx \<and> validate body = Inr req \<longrightarrow>
      (\<exists>v. request_features ctx body = Inr v \<and>
           length v = feature_count (ctx_metadata ctx) \<and>
           length v = length (feature_names (ctx_metadata ctx)) \<and>
           (\<forall>i<length v. feature_value req (ctx_buffer ctx)
              (feature_names (ctx_metadata ctx) ! i) = Some (v ! i))))"
  using startup_count_mismatch [of a md] build_after_startup [of a ctx req]
  by (auto simp: request_features_def)

lemma startup_miscounted:
  "startup miscounted_artifacts = Inl (ConfigurationError ''feature count'')"
  by code_simp

lemma validate_example: "validate example_body = Inr example_request"
  by code_simp

lemma features_example:
  "request_features example_context example_body =
     Inr [360, 12, 25, 16, 14, 209 / 14, 1015.2, 68, 15.5, 1.2]"
  by code_simp

theorem feature_vector_matches_metadata_witness:
  "feature_metadata miscounted_artifacts = Some (example_metadata\<lparr>feature_count := 9\<rparr>) \<and>
   length (feature_names (example_metadata\<lparr>feature_count := 9\<rparr>)) \<noteq>
     feature_count (example_metadata\<lparr>feature_count := 9\<rparr>) \<and>
   (\<exists>m. startup miscounted_artifacts = Inl (ConfigurationError m)) \<and>
   startup example_artifacts = Inr example_context \<and>
   validate example_body = Inr example_request \<and>
   request_features example_context example_body =
     Inr [360, 12, 25, 16, 14, 209 / 14, 1015.2, 68, 15.5, 1.2] \<and>
   feature_count (ctx_metadata example_context) = 10"
proof -
  have meta: "feature_metadata miscounted_artifacts = Some (example_metadata\<lparr>feature_count := 9\<rparr>)"
    by (simp add: miscounted_artifacts_def)
  have differ: "length (feature_names (example_metadata\<lparr>feature_count := 9\<rparr>)) \<noteq>
      feature_count (example_metadata\<lparr>feature_count := 9\<rparr>)"
    by (simp add: example_metadata_def known_features_def)
  from feature_vector_matches_metadata [where a = miscounted_artifacts
      and md = "example_metadata\<lparr>feature_count := 9\<rparr>"] meta differ
  have one: "\<exists>m. startup miscounted_artifacts = Inl (ConfigurationError m)"
    by blast
  from feature_vector_matches_metadata [where a = example_artifacts and ctx = example_context
      and body = example_body and req = example_request] startup_example validate_example
  obtain v where "request_features example_context example_body = Inr v"
    and "length v = feature_count (ctx_metadata example_context)"
    by blast
  with features_example have "feature_count (ctx_metadata example_context) = 10"
    by simp
  with meta differ one startup_example validate_example features_example show ?thesis
    by simp
qed

subsection \<open>The confidence interval\<close>








end
